theory Spec2Isabelle
  imports Complex_Main "HOL-Library.Word"
begin

unbundle bit_operations_syntax

section \<open>The TLS socket module \<^verbatim>\<open>Modules/_ssl.c\<close>\<close>

text \<open>
  A shallow embedding of the parts of \<^verbatim>\<open>_ssl.c\<close> that carry the channel state machine
  (handshake, read, write, shutdown), the error mapper, the X.509 name decoder, the
  peer-certificate query, the options setter and the server-name callback.

  The TLS engine (OpenSSL) and the interpreter are outside the file. What they return is
  an input of the model: every retry loop runs over a script, one \<open>engine_step\<close> per
  iteration, holding what the engine primitive returned, what \<^verbatim>\<open>SSL_get_error\<close> and
  \<^verbatim>\<open>ERR_peek_last_error\<close> reported, whether \<^verbatim>\<open>PyErr_CheckSignals\<close> found an interrupt
  and what \<^verbatim>\<open>poll\<close>/\<^verbatim>\<open>select\<close> returned. A loop that needs a step when the script is
  used up has not returned: its status is \<open>Pending\<close>.

  What the code does to the world is an ordered log of events: a call of an engine
  primitive, or an exception set on the interpreter.

  The functions are modelled from the point where their arguments have been parsed.
  Failures of memory allocation inside the interpreter's constructors are left out, except
  for the destination of a read. A socket's timeout, a C \<^verbatim>\<open>double\<close>, is a real number.
\<close>

subsection \<open>Compile-time configuration\<close>

record build_config =
  HAVE_POLL :: bool
  FD_SETSIZE :: int
  HAVE_SSL_CTX_CLEAR_OPTIONS :: bool

subsection \<open>Enumerations\<close>

datatype py_ssl_error =
    PY_SSL_ERROR_NONE
  | PY_SSL_ERROR_SSL
  | PY_SSL_ERROR_WANT_READ
  | PY_SSL_ERROR_WANT_WRITE
  | PY_SSL_ERROR_WANT_X509_LOOKUP
  | PY_SSL_ERROR_SYSCALL
  | PY_SSL_ERROR_ZERO_RETURN
  | PY_SSL_ERROR_WANT_CONNECT
  | PY_SSL_ERROR_EOF
  | PY_SSL_ERROR_NO_SOCKET
  | PY_SSL_ERROR_INVALID_ERROR_CODE

text \<open>The C value of each enumerator (they are numbered from 0 in declaration order).\<close>

fun py_ssl_error_value :: "py_ssl_error \<Rightarrow> int" where
  "py_ssl_error_value PY_SSL_ERROR_NONE = 0"
| "py_ssl_error_value PY_SSL_ERROR_SSL = 1"
| "py_ssl_error_value PY_SSL_ERROR_WANT_READ = 2"
| "py_ssl_error_value PY_SSL_ERROR_WANT_WRITE = 3"
| "py_ssl_error_value PY_SSL_ERROR_WANT_X509_LOOKUP = 4"
| "py_ssl_error_value PY_SSL_ERROR_SYSCALL = 5"
| "py_ssl_error_value PY_SSL_ERROR_ZERO_RETURN = 6"
| "py_ssl_error_value PY_SSL_ERROR_WANT_CONNECT = 7"
| "py_ssl_error_value PY_SSL_ERROR_EOF = 8"
| "py_ssl_error_value PY_SSL_ERROR_NO_SOCKET = 9"
| "py_ssl_error_value PY_SSL_ERROR_INVALID_ERROR_CODE = 10"

text \<open>
  The result of \<^verbatim>\<open>SSL_get_error\<close>. The codes the module names are constructors; every
  other integer the engine may return is \<open>SSL_ERROR_OTHER\<close>.
\<close>

datatype ssl_error_code =
    SSL_ERROR_NONE
  | SSL_ERROR_SSL
  | SSL_ERROR_WANT_READ
  | SSL_ERROR_WANT_WRITE
  | SSL_ERROR_WANT_X509_LOOKUP
  | SSL_ERROR_SYSCALL
  | SSL_ERROR_ZERO_RETURN
  | SSL_ERROR_WANT_CONNECT
  | SSL_ERROR_OTHER

datatype timeout_state =
    SOCKET_IS_NONBLOCKING
  | SOCKET_IS_BLOCKING
  | SOCKET_HAS_TIMED_OUT
  | SOCKET_HAS_BEEN_CLOSED
  | SOCKET_TOO_LARGE_FOR_SELECT
  | SOCKET_OPERATION_OK

subsection \<open>Exceptions and the event log\<close>

datatype exc_type =
    PySSLErrorObject
  | PySSLZeroReturnErrorObject
  | PySSLWantReadErrorObject
  | PySSLWantWriteErrorObject
  | PySSLSyscallErrorObject
  | PySSLEOFErrorObject

text \<open>
  The value built by \<^verbatim>\<open>fill_and_set_sslerror\<close>: the exception type, the numeric code
  stored as the exception's first argument, the message (without the trailing
  \<^verbatim>\<open>(_ssl.c:<line>)\<close>), and the \<^verbatim>\<open>reason\<close> and \<^verbatim>\<open>library\<close> attributes.
\<close>

record ssl_exception =
  exc_type :: exc_type
  exc_errno :: int
  exc_message :: string
  exc_reason :: "string option"
  exc_library :: "string option"

datatype py_exception =
    SSLException ssl_exception
  | SSLErrorString string
  | TimeoutError string
  | OverflowError string
  | ValueError string
  | SocketError
  | SignalException
  | AllocationError

text \<open>
  \<open>SSLErrorString\<close> is \<^verbatim>\<open>PyErr_SetString(PySSLErrorObject, msg)\<close>, \<open>TimeoutError\<close> the
  socket module's timeout error, \<open>SocketError\<close> what the socket's own
  \<^verbatim>\<open>errorhandler\<close> raises and \<open>SignalException\<close> what a signal handler left behind
  when \<^verbatim>\<open>PyErr_CheckSignals\<close> returns non-zero; \<open>AllocationError\<close> is what
  \<^verbatim>\<open>PyBytes_FromStringAndSize\<close> leaves when it returns a null pointer.
\<close>

datatype engine_call =
    ERR_peek_last_error
  | ERR_clear_error
  | SSL_get_error
  | SSL_get_rbio
  | SSL_get_wbio
  | BIO_set_nbio bool
  | SSL_do_handshake
  | SSL_get_peer_certificate
  | X509_free
  | SSL_pending
  | SSL_read
  | SSL_write
  | SSL_shutdown int
  | SSL_set_read_ahead int
  | SSL_get_shutdown

datatype event = Call engine_call | Report py_exception

text \<open>
  \<open>SSL_shutdown r\<close> is a call of \<^verbatim>\<open>SSL_shutdown\<close> that returned \<open>r\<close>, and
  \<open>SSL_set_read_ahead n\<close> a call with argument \<open>n\<close>. \<open>is_SSL_call\<close> holds of the calls
  into the TLS session object, as opposed to the error-queue helpers.
\<close>

fun is_SSL_call :: "event \<Rightarrow> bool" where
  "is_SSL_call (Call ERR_peek_last_error) = False"
| "is_SSL_call (Call ERR_clear_error) = False"
| "is_SSL_call (Call c) = True"
| "is_SSL_call (Report e) = False"

datatype 'a status = Returned 'a | Error | Pending

subsection \<open>Sockets and channels\<close>

record PySocketSockObject =
  sock_fd :: int
  sock_timeout :: real

type_synonym X509 = nat

text \<open>
  \<open>Socket\<close> is the weak reference: \<open>None\<close> when the referent is gone. \<open>ssl\<close> is the
  session handle (\<open>None\<close> for a null pointer).
\<close>

record PySSLSocket =
  Socket :: "PySocketSockObject option"
  ssl :: "nat option"
  peer_cert :: "X509 option"
  shutdown_seen_zero :: int

subsection \<open>What the file takes from the engine's headers and the generated data\<close>

text \<open>
  The constants and error-code helpers of the engine's headers that the modelled
  functions use, and the module's two lookup tables, filled once at start-up from the
  generated data. None of them is defined in the file, so they are parameters of the
  model. An error code is a C \<^verbatim>\<open>unsigned long\<close>, 64 bits here.
\<close>

record ssl_engine =
  SSL_VERIFY_PEER :: int
  SSL_RECEIVED_SHUTDOWN :: int
  SSL_AD_HANDSHAKE_FAILURE :: int
  SSL_AD_INTERNAL_ERROR :: int
  ERR_GET_LIB :: "64 word \<Rightarrow> int"
  ERR_GET_REASON :: "64 word \<Rightarrow> int"
  ERR_reason_error_string :: "64 word \<Rightarrow> string option"
  err_codes_to_names :: "int \<times> int \<Rightarrow> string option"
  lib_codes_to_names :: "int \<Rightarrow> string option"

subsection \<open>The options setter\<close>

text \<open>
  Modelled from the spec: the engine's two option primitives are not in the file. The
  option bitset is mutated by delta: \<^verbatim>\<open>SSL_CTX_set_options\<close> adds the given bits,
  \<^verbatim>\<open>SSL_CTX_clear_options\<close> removes them. The C type is \<^verbatim>\<open>long\<close>; its width is the
  type parameter.
\<close>

definition SSL_CTX_set_options :: "'w::len word \<Rightarrow> 'w word \<Rightarrow> 'w word" where
  "SSL_CTX_set_options opts m = opts OR m"

definition SSL_CTX_clear_options :: "'w::len word \<Rightarrow> 'w word \<Rightarrow> 'w word" where
  "SSL_CTX_clear_options opts m = opts AND NOT m"

datatype 'a ctx_call = Clear_options 'a | Set_options 'a

text \<open>
  \<^verbatim>\<open>set_options\<close> after argument parsing. The first argument is the engine's current
  option word (\<^verbatim>\<open>SSL_CTX_get_options\<close>); the result is the return code (an exception for
  -1), the engine's option word afterwards and the mutating engine calls made, in order.
\<close>

definition set_options ::
  "build_config \<Rightarrow> 'w::len word \<Rightarrow> 'w word \<Rightarrow> (py_exception + unit) \<times> 'w word \<times> 'w word ctx_call list"
where
  "set_options B ctx new_opts =
     (let opts = ctx;
          clear = opts AND NOT new_opts;
          set_bits = NOT opts AND new_opts
      in if clear \<noteq> 0 \<and> \<not> HAVE_SSL_CTX_CLEAR_OPTIONS B
         then (Inl (ValueError ''can't clear options before OpenSSL 0.9.8m''), ctx, [])
         else
           let (ctx1, calls1) =
                 (if clear \<noteq> 0 then (SSL_CTX_clear_options ctx clear, [Clear_options clear])
                  else (ctx, []));
               (ctx2, calls2) =
                 (if set_bits \<noteq> 0
                  then (SSL_CTX_set_options ctx1 set_bits, calls1 @ [Set_options set_bits])
                  else (ctx1, calls1))
           in (Inr (), ctx2, calls2))"

subsection \<open>The peer-certificate query\<close>

datatype ('der, 'dec) peercert_result =
    Py_RETURN_NONE
  | DER_bytes 'der
  | Empty_dict
  | Decoded 'dec

text \<open>
  \<^verbatim>\<open>PySSL_peercert\<close> after argument parsing. \<open>to_der\<close> stands for \<^verbatim>\<open>_certificate_to_der\<close>
  and \<open>decode\<close> for \<^verbatim>\<open>_decode_certificate\<close> (\<open>None\<close> when they fail with an exception
  set); \<open>verification\<close> is what \<^verbatim>\<open>SSL_CTX_get_verify_mode\<close> returns for the channel's
  context.
\<close>

definition PySSL_peercert ::
  "ssl_engine \<Rightarrow> (X509 \<Rightarrow> 'der option) \<Rightarrow> (X509 \<Rightarrow> 'dec option) \<Rightarrow> int \<Rightarrow> PySSLSocket \<Rightarrow> bool
     \<Rightarrow> ('der, 'dec) peercert_result option"
where
  "PySSL_peercert E to_der decode verification self binary_mode =
     (case peer_cert self of
        None \<Rightarrow> Some Py_RETURN_NONE
      | Some cert \<Rightarrow>
          if binary_mode then map_option DER_bytes (to_der cert)
          else if verification AND SSL_VERIFY_PEER E = 0 then Some Empty_dict
          else map_option Decoded (decode cert))"


subsection \<open>The server-name callback\<close>

datatype py_object = Py_None | PyLong int | PyUnicode string

definition LONG_MIN :: int where
  "LONG_MIN = - (2 ^ 63)"

definition LONG_MAX :: int where
  "LONG_MAX = 2 ^ 63 - 1"

text \<open>
  Modelled from the spec: the interpreter's conversion of a callback result to a C
  \<^verbatim>\<open>long\<close>, \<^verbatim>\<open>PyLong_AsLong\<close>, is not in the file. A numeric result converts (when it
  is inside the range of a C \<^verbatim>\<open>long\<close>, 64 bits here); for every other object the
  conversion leaves an exception set, which is the result \<open>None\<close>. The callback below
  takes the conversion as a parameter; this one serves the concrete runs.
\<close>

fun PyLong_AsLong :: "py_object \<Rightarrow> int option" where
  "PyLong_AsLong (PyLong n) = (if LONG_MIN \<le> n \<and> n \<le> LONG_MAX then Some n else None)"
| "PyLong_AsLong Py_None = None"
| "PyLong_AsLong (PyUnicode s) = None"

text \<open>The C cast \<^verbatim>\<open>(int)\<close> of a wider integer: the low 32 bits, read as signed.\<close>

definition int_cast :: "int \<Rightarrow> int" where
  "int_cast n = sint (word_of_int n :: 32 word)"

text \<open>The callback's return codes.\<close>

datatype tlsext_ret = SSL_TLSEXT_ERR_OK | SSL_TLSEXT_ERR_ALERT_FATAL

text \<open>
  The registered callable \<open>set_hostname\<close> (\<open>None\<close> for a null pointer) maps the host
  name argument (\<open>Py_None\<close> or a string object) to what it returns, \<open>None\<close> when it
  raises. The socket and context arguments of the call are fixed by the channel.
\<close>

record PySSLContext =
  set_hostname :: "(py_object \<Rightarrow> py_object option) option"

text \<open>A callable that returns the same value whatever the host name.\<close>

definition constant_callback :: "py_object option \<Rightarrow> py_object \<Rightarrow> py_object option" where
  "constant_callback r h = r"

text \<open>
  \<^verbatim>\<open>_servername_callback\<close>. \<open>as_long\<close> is the interpreter's \<^verbatim>\<open>PyLong_AsLong\<close> (\<open>None\<close> when
  it leaves an exception set), \<open>idna\<close> the decoding of the received name (\<open>None\<close> when
  it fails), \<open>servername\<close> what \<^verbatim>\<open>SSL_get_servername\<close> returns. The result is the return
  code and the value written to \<^verbatim>\<open>*al\<close>, if any.
\<close>

definition servername_callback ::
  "ssl_engine \<Rightarrow> (py_object \<Rightarrow> int option) \<Rightarrow> (string \<Rightarrow> string option) \<Rightarrow> PySSLContext
     \<Rightarrow> PySSLSocket \<Rightarrow> string option \<Rightarrow> tlsext_ret \<times> int option"
where
  "servername_callback E as_long idna ssl_ctx ssl_obj servername =
     (case set_hostname ssl_ctx of
        None \<Rightarrow> (SSL_TLSEXT_ERR_OK, None)
      | Some cb \<Rightarrow>
          (case Socket ssl_obj of
             None \<Rightarrow> (SSL_TLSEXT_ERR_ALERT_FATAL, Some (SSL_AD_INTERNAL_ERROR E))
           | Some ssl_socket \<Rightarrow>
               (case (case servername of
                        None \<Rightarrow> Some (cb Py_None)
                      | Some name \<Rightarrow>
                          (case idna name of
                             None \<Rightarrow> None
                           | Some servername_idna \<Rightarrow> Some (cb (PyUnicode servername_idna))))
                of
                  None \<Rightarrow> (SSL_TLSEXT_ERR_ALERT_FATAL, Some (SSL_AD_INTERNAL_ERROR E))
                | Some None \<Rightarrow> (SSL_TLSEXT_ERR_ALERT_FATAL, Some (SSL_AD_HANDSHAKE_FAILURE E))
                | Some (Some result) \<Rightarrow>
                    if result \<noteq> Py_None then
                      (case as_long result of
                         Some n \<Rightarrow> (SSL_TLSEXT_ERR_ALERT_FATAL, Some (int_cast n))
                       | None \<Rightarrow> (SSL_TLSEXT_ERR_ALERT_FATAL, Some (SSL_AD_INTERNAL_ERROR E)))
                    else (SSL_TLSEXT_ERR_OK, None))))"

subsection \<open>The X.509 name decoder\<close>

record ('o, 'v) X509_NAME_ENTRY =
  entry_set :: int
  entry_object :: 'o
  entry_data :: 'v

text \<open>
  \<^verbatim>\<open>_create_tuple_for_attribute\<close>. \<open>obj2txt\<close> is \<^verbatim>\<open>OBJ_obj2txt\<close> and \<open>to_utf8\<close> is
  \<^verbatim>\<open>ASN1_STRING_to_UTF8\<close> followed by the strict UTF-8 decoding; each is \<open>None\<close> when it
  fails.
\<close>

definition create_tuple_for_attribute ::
  "('o \<Rightarrow> string option) \<Rightarrow> ('v \<Rightarrow> string option) \<Rightarrow> 'o \<Rightarrow> 'v \<Rightarrow> (string \<times> string) option"
where
  "create_tuple_for_attribute obj2txt to_utf8 name val =
     (case obj2txt name of
        None \<Rightarrow> None
      | Some name_obj \<Rightarrow>
          (case to_utf8 val of
             None \<Rightarrow> None
           | Some value_obj \<Rightarrow> Some (name_obj, value_obj)))"

text \<open>
  The loop of \<^verbatim>\<open>_create_tuple_for_X509_NAME\<close> over the entries that are left, with the
  loop variables \<open>rdn_level\<close>, \<open>rdn\<close> (the group being filled) and \<open>dn\<close> (the groups
  already closed); after the last entry, the dangling group is added when it is not
  empty.
\<close>

fun X509_NAME_loop ::
  "('o \<Rightarrow> string option) \<Rightarrow> ('v \<Rightarrow> string option) \<Rightarrow> ('o, 'v) X509_NAME_ENTRY list
     \<Rightarrow> int \<Rightarrow> (string \<times> string) list \<Rightarrow> (string \<times> string) list list
     \<Rightarrow> (string \<times> string) list list option"
where
  "X509_NAME_loop obj2txt to_utf8 [] rdn_level rdn dn =
     Some (if length rdn > 0 then dn @ [rdn] else dn)"
| "X509_NAME_loop obj2txt to_utf8 (entry # rest) rdn_level rdn dn =
     (let (rdn1, dn1) =
            (if rdn_level \<ge> 0 \<and> rdn_level \<noteq> entry_set entry then ([], dn @ [rdn])
             else (rdn, dn))
      in case create_tuple_for_attribute obj2txt to_utf8 (entry_object entry) (entry_data entry) of
           None \<Rightarrow> None
         | Some attr \<Rightarrow> X509_NAME_loop obj2txt to_utf8 rest (entry_set entry) (rdn1 @ [attr]) dn1)"

definition create_tuple_for_X509_NAME ::
  "('o \<Rightarrow> string option) \<Rightarrow> ('v \<Rightarrow> string option) \<Rightarrow> ('o, 'v) X509_NAME_ENTRY list
     \<Rightarrow> (string \<times> string) list list option"
where
  "create_tuple_for_X509_NAME obj2txt to_utf8 xname = X509_NAME_loop obj2txt to_utf8 xname (-1) [] []"

text \<open>
  The grouping in the words of the specification: consecutive entries that share the
  set identifier form one group, and a new group starts where the identifier changes.
\<close>

fun rdn_groups :: "('o, 'v) X509_NAME_ENTRY list \<Rightarrow> ('o, 'v) X509_NAME_ENTRY list list" where
  "rdn_groups [] = []"
| "rdn_groups (e # es) =
     (case rdn_groups es of
        [] \<Rightarrow> [[e]]
      | g # gs \<Rightarrow> if entry_set e = entry_set (hd g) then (e # g) # gs else [e] # g # gs)"

text \<open>The attribute tuple of an entry whose two conversions succeed.\<close>

definition attribute_of ::
  "('o \<Rightarrow> string option) \<Rightarrow> ('v \<Rightarrow> string option) \<Rightarrow> ('o, 'v) X509_NAME_ENTRY \<Rightarrow> string \<times> string"
where
  "attribute_of obj2txt to_utf8 e = (the (obj2txt (entry_object e)), the (to_utf8 (entry_data e)))"

definition decodable ::
  "('o \<Rightarrow> string option) \<Rightarrow> ('v \<Rightarrow> string option) \<Rightarrow> ('o, 'v) X509_NAME_ENTRY \<Rightarrow> bool"
where
  "decodable obj2txt to_utf8 e \<longleftrightarrow> obj2txt (entry_object e) \<noteq> None \<and> to_utf8 (entry_data e) \<noteq> None"

subsection \<open>The error mapper\<close>

text \<open>
  \<^verbatim>\<open>fill_and_set_sslerror\<close>: the exception it sets. The line number only goes into the
  message suffix, which the model leaves out.
\<close>

definition fill_and_set_sslerror ::
  "ssl_engine \<Rightarrow> exc_type \<Rightarrow> int \<Rightarrow> string option \<Rightarrow> 64 word \<Rightarrow> py_exception"
where
  "fill_and_set_sslerror E type ssl_errno errstr errcode =
     (let reason_obj =
            (if errcode \<noteq> 0
             then err_codes_to_names E (ERR_GET_LIB E errcode, ERR_GET_REASON E errcode)
             else None);
          lib_obj = (if errcode \<noteq> 0 then lib_codes_to_names E (ERR_GET_LIB E errcode) else None);
          errstr1 =
            (if errcode \<noteq> 0 \<and> errstr = None then ERR_reason_error_string E errcode else errstr);
          errstr2 = (case errstr1 of None \<Rightarrow> ''unknown error'' | Some s \<Rightarrow> s);
          msg =
            (case (reason_obj, lib_obj) of
               (Some r, Some l) \<Rightarrow> ''['' @ l @ '': '' @ r @ ''] '' @ errstr2
             | (None, Some l) \<Rightarrow> ''['' @ l @ ''] '' @ errstr2
             | (_, None) \<Rightarrow> errstr2)
      in SSLException \<lparr>exc_type = type, exc_errno = ssl_errno, exc_message = msg,
                        exc_reason = reason_obj, exc_library = lib_obj\<rparr>)"

text \<open>
  \<^verbatim>\<open>_setSSLError(errstr, errcode, ...)\<close>. Both branches assign \<open>errcode\<close> before it is
  read: with a message it becomes 0, without one it becomes the last queued engine error
  (\<open>queue\<close>), narrowed to \<^verbatim>\<open>int\<close>.
\<close>

definition setSSLError :: "ssl_engine \<Rightarrow> string option \<Rightarrow> int \<Rightarrow> 64 word \<Rightarrow> event list" where
  "setSSLError E errstr errcode queue =
     (case errstr of
        None \<Rightarrow>
          (let errcode1 = (ucast queue :: 32 word)
           in [Call ERR_peek_last_error,
               Report (fill_and_set_sslerror E PySSLErrorObject (sint errcode1) None (scast errcode1)),
               Call ERR_clear_error])
      | Some s \<Rightarrow>
          [Report (fill_and_set_sslerror E PySSLErrorObject 0 (Some s) 0),
           Call ERR_clear_error])"

text \<open>
  \<^verbatim>\<open>PySSL_SetError(obj, ret, ...)\<close>, called with \<open>ret \<le> 0\<close>. \<open>e\<close> is what
  \<^verbatim>\<open>ERR_peek_last_error\<close> returns and \<open>err\<close> what \<^verbatim>\<open>SSL_get_error\<close> returns for \<open>ret\<close>.
  The result is the events of the call, in order.
\<close>

definition PySSL_SetError ::
  "ssl_engine \<Rightarrow> PySSLSocket \<Rightarrow> int \<Rightarrow> 64 word \<Rightarrow> ssl_error_code \<Rightarrow> event list"
where
  "PySSL_SetError E obj ret e err =
     (let finish = (\<lambda>type p errstr.
            [Report (fill_and_set_sslerror E type (py_ssl_error_value p) errstr e),
             Call ERR_clear_error])
      in Call ERR_peek_last_error #
         (case ssl obj of
            None \<Rightarrow> finish PySSLErrorObject PY_SSL_ERROR_NONE None
          | Some s \<Rightarrow>
              Call SSL_get_error #
              (case err of
                 SSL_ERROR_ZERO_RETURN \<Rightarrow>
                   finish PySSLZeroReturnErrorObject PY_SSL_ERROR_ZERO_RETURN
                     (Some ''TLS/SSL connection has been closed (EOF)'')
               | SSL_ERROR_WANT_READ \<Rightarrow>
                   finish PySSLWantReadErrorObject PY_SSL_ERROR_WANT_READ
                     (Some ''The operation did not complete (read)'')
               | SSL_ERROR_WANT_WRITE \<Rightarrow>
                   finish PySSLWantWriteErrorObject PY_SSL_ERROR_WANT_WRITE
                     (Some ''The operation did not complete (write)'')
               | SSL_ERROR_WANT_X509_LOOKUP \<Rightarrow>
                   finish PySSLErrorObject PY_SSL_ERROR_WANT_X509_LOOKUP
                     (Some ''The operation did not complete (X509 lookup)'')
               | SSL_ERROR_WANT_CONNECT \<Rightarrow>
                   finish PySSLErrorObject PY_SSL_ERROR_WANT_CONNECT
                     (Some ''The operation did not complete (connect)'')
               | SSL_ERROR_SYSCALL \<Rightarrow>
                   if e = 0 then
                     (if ret = 0 \<or> Socket obj = None then
                        finish PySSLEOFErrorObject PY_SSL_ERROR_EOF
                          (Some ''EOF occurred in violation of protocol'')
                      else if ret = -1 then
                        [Call ERR_clear_error, Report SocketError]
                      else
                        finish PySSLSyscallErrorObject PY_SSL_ERROR_SYSCALL
                          (Some ''Some I/O error occurred''))
                   else finish PySSLErrorObject PY_SSL_ERROR_SYSCALL None
               | SSL_ERROR_SSL \<Rightarrow>
                   finish PySSLErrorObject PY_SSL_ERROR_SSL
                     (if e = 0 then Some ''A failure in the SSL library occurred'' else None)
               | SSL_ERROR_NONE \<Rightarrow>
                   finish PySSLErrorObject PY_SSL_ERROR_INVALID_ERROR_CODE
                     (Some ''Invalid error code'')
               | SSL_ERROR_OTHER \<Rightarrow>
                   finish PySSLErrorObject PY_SSL_ERROR_INVALID_ERROR_CODE
                     (Some ''Invalid error code''))))"

subsection \<open>Waiting for the socket\<close>

text \<open>\<^verbatim>\<open>_PyIsSelectable_fd\<close>, for a descriptor that is not negative.\<close>

definition PyIsSelectable_fd :: "build_config \<Rightarrow> int \<Rightarrow> bool" where
  "PyIsSelectable_fd B fd \<longleftrightarrow> fd < FD_SETSIZE B"

text \<open>
  \<^verbatim>\<open>check_socket_and_wait_for_timeout(s, writing)\<close>. \<open>rc\<close> is what \<^verbatim>\<open>poll\<close> (or
  \<^verbatim>\<open>select\<close>) returns if the function gets as far as calling it.
\<close>

definition check_socket_and_wait_for_timeout ::
  "build_config \<Rightarrow> PySocketSockObject \<Rightarrow> bool \<Rightarrow> int \<Rightarrow> timeout_state"
where
  "check_socket_and_wait_for_timeout B s writing rc =
     (if sock_timeout s < 0 then SOCKET_IS_BLOCKING
      else if sock_timeout s = 0 then SOCKET_IS_NONBLOCKING
      else if sock_fd s < 0 then SOCKET_HAS_BEEN_CLOSED
      else if \<not> HAVE_POLL B \<and> \<not> PyIsSelectable_fd B (sock_fd s) then SOCKET_TOO_LARGE_FOR_SELECT
      else if rc = 0 then SOCKET_HAS_TIMED_OUT
      else SOCKET_OPERATION_OK)"

subsection \<open>One iteration of a retry loop, as the environment answers it\<close>

text \<open>
  \<open>ret\<close> is what the engine primitive of the loop returns (\<^verbatim>\<open>SSL_do_handshake\<close>,
  \<^verbatim>\<open>SSL_read\<close>, \<^verbatim>\<open>SSL_write\<close> or \<^verbatim>\<open>SSL_shutdown\<close>), \<open>err\<close> what \<^verbatim>\<open>SSL_get_error\<close> then
  reports, \<open>queued\<close> the last code of the engine's error queue, \<open>signals\<close> whether
  \<^verbatim>\<open>PyErr_CheckSignals\<close> returns non-zero, \<open>poll_rc\<close> what the readiness wait returns,
  \<open>shutdown_state\<close> what \<^verbatim>\<open>SSL_get_shutdown\<close> returns and \<open>peer\<close> what
  \<^verbatim>\<open>SSL_get_peer_certificate\<close> returns.
\<close>

record engine_step =
  ret :: int
  err :: ssl_error_code
  queued :: "64 word"
  signals :: bool
  poll_rc :: int
  shutdown_state :: int
  peer :: "X509 option"

datatype loop_exit = Loop_done engine_step | Goto_error | Script_end

text \<open>The two calls that set the blocking mode of the engine's transport.\<close>

definition set_nbio :: "PySocketSockObject \<Rightarrow> event list" where
  "set_nbio sock =
     (let nonblocking = (sock_timeout sock \<ge> 0)
      in [Call SSL_get_rbio, Call (BIO_set_nbio nonblocking),
          Call SSL_get_wbio, Call (BIO_set_nbio nonblocking)])"

text \<open>The error for a channel whose socket is gone, as the four operations raise it.\<close>

definition socket_gone :: "ssl_engine \<Rightarrow> event list" where
  "socket_gone E =
     setSSLError E (Some ''Underlying socket connection gone'')
       (py_ssl_error_value PY_SSL_ERROR_NO_SOCKET) 0"

subsection \<open>Handshake\<close>

text \<open>
  The \<^verbatim>\<open>do ... while\<close> loop of \<^verbatim>\<open>PySSL_SSLdo_handshake\<close>. The messages are given without
  the \<^verbatim>\<open>_ssl.c:<line>:\<close> prefix that \<^verbatim>\<open>ERRSTR\<close> adds.
\<close>

fun handshake_loop ::
  "build_config \<Rightarrow> PySocketSockObject \<Rightarrow> engine_step list \<Rightarrow> loop_exit \<times> event list"
where
  "handshake_loop B sock [] = (Script_end, [])"
| "handshake_loop B sock (st # rest) =
     (let evs = [Call SSL_do_handshake, Call SSL_get_error]
      in if signals st then (Goto_error, evs @ [Report SignalException])
         else
           let sockstate =
                 (if err st = SSL_ERROR_WANT_READ
                  then check_socket_and_wait_for_timeout B sock False (poll_rc st)
                  else if err st = SSL_ERROR_WANT_WRITE
                  then check_socket_and_wait_for_timeout B sock True (poll_rc st)
                  else SOCKET_OPERATION_OK)
           in if sockstate = SOCKET_HAS_TIMED_OUT then
                (Goto_error, evs @ [Report (TimeoutError ''The handshake operation timed out'')])
              else if sockstate = SOCKET_HAS_BEEN_CLOSED then
                (Goto_error, evs @ [Report (SSLErrorString ''Underlying socket has been closed.'')])
              else if sockstate = SOCKET_TOO_LARGE_FOR_SELECT then
                (Goto_error,
                 evs @ [Report (SSLErrorString ''Underlying socket too large for select().'')])
              else if sockstate = SOCKET_IS_NONBLOCKING then (Loop_done st, evs)
              else if err st = SSL_ERROR_WANT_READ \<or> err st = SSL_ERROR_WANT_WRITE then
                (case handshake_loop B sock rest of (x, evs') \<Rightarrow> (x, evs @ evs'))
              else (Loop_done st, evs))"

text \<open>
  \<^verbatim>\<open>PySSL_SSLdo_handshake\<close>: the status of the call (\<open>Returned ()\<close> for \<^verbatim>\<open>None\<close>), the
  channel afterwards and the events.
\<close>

definition PySSL_SSLdo_handshake ::
  "build_config \<Rightarrow> ssl_engine \<Rightarrow> PySSLSocket \<Rightarrow> engine_step list
     \<Rightarrow> unit status \<times> PySSLSocket \<times> event list"
where
  "PySSL_SSLdo_handshake B E self steps =
     (case Socket self of
        None \<Rightarrow> (Error, self, socket_gone E)
      | Some sock \<Rightarrow>
          (case handshake_loop B sock steps of
             (Script_end, evs) \<Rightarrow> (Pending, self, set_nbio sock @ evs)
           | (Goto_error, evs) \<Rightarrow> (Error, self, set_nbio sock @ evs)
           | (Loop_done st, evs) \<Rightarrow>
               if ret st < 1 then
                 (Error, self,
                  set_nbio sock @ evs @ PySSL_SetError E self (ret st) (queued st) (err st))
               else
                 (Returned (), self\<lparr>peer_cert := peer st\<rparr>,
                  set_nbio sock @ evs
                    @ (if peer_cert self \<noteq> None then [Call X509_free] else [])
                    @ [Call SSL_get_peer_certificate])))"

text \<open>
  A step after which a retry loop goes round again: no interrupt, the engine wants to
  read or to write, and the readiness wait neither fails nor reports a non-blocking
  socket.
\<close>

definition retried :: "build_config \<Rightarrow> PySocketSockObject \<Rightarrow> engine_step \<Rightarrow> bool" where
  "retried B sock st \<longleftrightarrow>
     \<not> signals st \<and>
     ((err st = SSL_ERROR_WANT_READ \<and>
         (check_socket_and_wait_for_timeout B sock False (poll_rc st) = SOCKET_IS_BLOCKING \<or>
          check_socket_and_wait_for_timeout B sock False (poll_rc st) = SOCKET_OPERATION_OK)) \<or>
      (err st = SSL_ERROR_WANT_WRITE \<and>
         (check_socket_and_wait_for_timeout B sock True (poll_rc st) = SOCKET_IS_BLOCKING \<or>
          check_socket_and_wait_for_timeout B sock True (poll_rc st) = SOCKET_OPERATION_OK)))"

text \<open>
  The engine's contract for \<^verbatim>\<open>SSL_get_error\<close>: it reports no error exactly for a positive
  result.
\<close>

definition engine_consistent :: "engine_step \<Rightarrow> bool" where
  "engine_consistent st \<longleftrightarrow> (err st = SSL_ERROR_NONE) = (1 \<le> ret st)"

text \<open>
  An engine for concrete runs: the constants with the values of the engine's headers, the
  error-code fields as the engine's macros extract them, and empty name tables.
\<close>

definition plain_engine :: ssl_engine where
  "plain_engine =
     \<lparr>SSL_VERIFY_PEER = 1,
      SSL_RECEIVED_SHUTDOWN = 2,
      SSL_AD_HANDSHAKE_FAILURE = 40,
      SSL_AD_INTERNAL_ERROR = 80,
      ERR_GET_LIB = (\<lambda>e. uint (drop_bit 24 e AND 255)),
      ERR_GET_REASON = (\<lambda>e. uint (e AND 4095)),
      ERR_reason_error_string = (\<lambda>e. None),
      err_codes_to_names = (\<lambda>k. None),
      lib_codes_to_names = (\<lambda>k. None)\<rparr>"

definition poll_build :: build_config where
  "poll_build = \<lparr>HAVE_POLL = True, FD_SETSIZE = 1024, HAVE_SSL_CTX_CLEAR_OPTIONS = True\<rparr>"

subsection \<open>Write\<close>

definition INT_MAX :: int where
  "INT_MAX = 2147483647"

text \<open>The \<^verbatim>\<open>do ... while\<close> loop of \<^verbatim>\<open>PySSL_SSLwrite\<close>.\<close>

fun write_loop ::
  "build_config \<Rightarrow> PySocketSockObject \<Rightarrow> engine_step list \<Rightarrow> loop_exit \<times> event list"
where
  "write_loop B sock [] = (Script_end, [])"
| "write_loop B sock (st # rest) =
     (let evs = [Call SSL_write, Call SSL_get_error]
      in if signals st then (Goto_error, evs @ [Report SignalException])
         else
           let sockstate =
                 (if err st = SSL_ERROR_WANT_READ
                  then check_socket_and_wait_for_timeout B sock False (poll_rc st)
                  else if err st = SSL_ERROR_WANT_WRITE
                  then check_socket_and_wait_for_timeout B sock True (poll_rc st)
                  else SOCKET_OPERATION_OK)
           in if sockstate = SOCKET_HAS_TIMED_OUT then
                (Goto_error, evs @ [Report (TimeoutError ''The write operation timed out'')])
              else if sockstate = SOCKET_HAS_BEEN_CLOSED then
                (Goto_error, evs @ [Report (SSLErrorString ''Underlying socket has been closed.'')])
              else if sockstate = SOCKET_IS_NONBLOCKING then (Loop_done st, evs)
              else if err st = SSL_ERROR_WANT_READ \<or> err st = SSL_ERROR_WANT_WRITE then
                (case write_loop B sock rest of (x, evs') \<Rightarrow> (x, evs @ evs'))
              else (Loop_done st, evs))"

text \<open>
  \<^verbatim>\<open>PySSL_SSLwrite\<close> after argument parsing: \<open>buf_len\<close> is the length of the buffer to
  send, \<open>pre_rc\<close> what the readiness wait before the loop returns. A returned value is
  the number of bytes written.
\<close>

definition PySSL_SSLwrite ::
  "build_config \<Rightarrow> ssl_engine \<Rightarrow> PySSLSocket \<Rightarrow> int \<Rightarrow> int \<Rightarrow> engine_step list
     \<Rightarrow> int status \<times> event list"
where
  "PySSL_SSLwrite B E self buf_len pre_rc steps =
     (case Socket self of
        None \<Rightarrow> (Error, socket_gone E)
      | Some sock \<Rightarrow>
          if buf_len > INT_MAX then
            (Error, [Report (OverflowError ''string longer than 2147483647 bytes'')])
          else
            let sockstate = check_socket_and_wait_for_timeout B sock True pre_rc
            in if sockstate = SOCKET_HAS_TIMED_OUT then
                 (Error, set_nbio sock @ [Report (TimeoutError ''The write operation timed out'')])
               else if sockstate = SOCKET_HAS_BEEN_CLOSED then
                 (Error,
                  set_nbio sock @ [Report (SSLErrorString ''Underlying socket has been closed.'')])
               else if sockstate = SOCKET_TOO_LARGE_FOR_SELECT then
                 (Error,
                  set_nbio sock
                    @ [Report (SSLErrorString ''Underlying socket too large for select().'')])
               else
                 (case write_loop B sock steps of
                    (Script_end, evs) \<Rightarrow> (Pending, set_nbio sock @ evs)
                  | (Goto_error, evs) \<Rightarrow> (Error, set_nbio sock @ evs)
                  | (Loop_done st, evs) \<Rightarrow>
                      if ret st > 0 then (Returned (ret st), set_nbio sock @ evs)
                      else
                        (Error,
                         set_nbio sock @ evs
                           @ PySSL_SetError E self (ret st) (queued st) (err st))))"

subsection \<open>Read\<close>

datatype read_exit = Read_done engine_step | Read_goto_done | Read_goto_error | Read_script_end

text \<open>
  A read returns a bytes object of the given size when no buffer was passed, and the
  number of bytes as an integer object otherwise.
\<close>

datatype read_result = Bytes_object int | Long_object int

text \<open>
  The set-up of the destination in \<^verbatim>\<open>PySSL_SSLread\<close>, after argument parsing: \<open>len\<close> is
  the length argument, \<open>buf\<close> the length of the buffer passed (\<open>None\<close> without one) and
  \<open>alloc_ok\<close> whether \<^verbatim>\<open>PyBytes_FromStringAndSize\<close> returns an object. The result is
  \<open>buf_passed\<close> and the length to read.
\<close>

definition read_setup :: "int \<Rightarrow> int option \<Rightarrow> bool \<Rightarrow> event list + bool \<times> int" where
  "read_setup len buf alloc_ok =
     (case buf of
        None \<Rightarrow> if alloc_ok then Inr (False, len) else Inl [Report AllocationError]
      | Some buf_len \<Rightarrow>
          if len \<le> 0 \<or> len > buf_len then
            (let len1 = int_cast buf_len
             in if buf_len \<noteq> len1
                then Inl [Report (OverflowError (''maximum length can't fit in a C 'int'' @ [CHR 0x27]))]
                else Inr (True, len1))
          else Inr (True, len))"

text \<open>The \<^verbatim>\<open>do ... while\<close> loop of \<^verbatim>\<open>PySSL_SSLread\<close>.\<close>

fun read_loop ::
  "build_config \<Rightarrow> ssl_engine \<Rightarrow> PySocketSockObject \<Rightarrow> engine_step list
     \<Rightarrow> read_exit \<times> event list"
where
  "read_loop B E sock [] = (Read_script_end, [])"
| "read_loop B E sock (st # rest) =
     (let evs = [Call SSL_read, Call SSL_get_error]
      in if signals st then (Read_goto_error, evs @ [Report SignalException])
         else if err st = SSL_ERROR_WANT_READ \<or> err st = SSL_ERROR_WANT_WRITE then
           (let sockstate =
                  check_socket_and_wait_for_timeout B sock (err st = SSL_ERROR_WANT_WRITE)
                    (poll_rc st)
            in if sockstate = SOCKET_HAS_TIMED_OUT then
                 (Read_goto_error, evs @ [Report (TimeoutError ''The read operation timed out'')])
               else if sockstate = SOCKET_IS_NONBLOCKING then (Read_done st, evs)
               else (case read_loop B E sock rest of (x, evs') \<Rightarrow> (x, evs @ evs')))
         else if err st = SSL_ERROR_ZERO_RETURN then
           (if shutdown_state st = SSL_RECEIVED_SHUTDOWN E
            then (Read_goto_done, evs @ [Call SSL_get_shutdown])
            else (Read_done st, evs @ [Call SSL_get_shutdown]))
         else (Read_done st, evs))"

text \<open>
  \<^verbatim>\<open>PySSL_SSLread\<close> after argument parsing. \<open>pending\<close> is what \<^verbatim>\<open>SSL_pending\<close> returns and
  \<open>pre_rc\<close> what the readiness wait before the loop returns.
\<close>

definition PySSL_SSLread ::
  "build_config \<Rightarrow> ssl_engine \<Rightarrow> PySSLSocket \<Rightarrow> int \<Rightarrow> int option \<Rightarrow> bool \<Rightarrow> int \<Rightarrow> int
     \<Rightarrow> engine_step list \<Rightarrow> read_result status \<times> event list"
where
  "PySSL_SSLread B E self len buf alloc_ok pending pre_rc steps =
     (case Socket self of
        None \<Rightarrow> (Error, socket_gone E)
      | Some sock \<Rightarrow>
          (case read_setup len buf alloc_ok of
             Inl evs \<Rightarrow> (Error, evs)
           | Inr (buf_passed, len1) \<Rightarrow>
               let evs0 = set_nbio sock @ [Call SSL_pending];
                   done = (\<lambda>count. Returned (if buf_passed then Long_object count
                                               else Bytes_object count));
                   run =
                     (case read_loop B E sock steps of
                        (Read_script_end, evs) \<Rightarrow> (Pending, evs0 @ evs)
                      | (Read_goto_error, evs) \<Rightarrow> (Error, evs0 @ evs)
                      | (Read_goto_done, evs) \<Rightarrow> (done 0, evs0 @ evs)
                      | (Read_done st, evs) \<Rightarrow>
                          if ret st \<le> 0 then
                            (Error,
                             evs0 @ evs @ PySSL_SetError E self (ret st) (queued st) (err st))
                          else (done (ret st), evs0 @ evs));
                   sockstate = check_socket_and_wait_for_timeout B sock False pre_rc
               in if pending = 0 \<and> sockstate = SOCKET_HAS_TIMED_OUT then
                    (Error, evs0 @ [Report (TimeoutError ''The read operation timed out'')])
                  else if pending = 0 \<and> sockstate = SOCKET_TOO_LARGE_FOR_SELECT then
                    (Error,
                     evs0 @ [Report (SSLErrorString ''Underlying socket too large for select().'')])
                  else if pending = 0 \<and> sockstate = SOCKET_HAS_BEEN_CLOSED then (done 0, evs0)
                  else run))"

subsection \<open>Shutdown\<close>

text \<open>
  The \<^verbatim>\<open>while (1)\<close> loop of \<^verbatim>\<open>PySSL_SSLshutdown\<close>, with the loop variable \<open>zeros\<close> and
  the channel's \<open>shutdown_seen_zero\<close> field (\<open>seen\<close>), which the loop writes. The result
  holds the field's final value.
\<close>

fun shutdown_loop ::
  "build_config \<Rightarrow> PySocketSockObject \<Rightarrow> int \<Rightarrow> int \<Rightarrow> engine_step list
     \<Rightarrow> loop_exit \<times> int \<times> event list"
where
  "shutdown_loop B sock zeros seen [] = (Script_end, seen, [])"
| "shutdown_loop B sock zeros seen (st # rest) =
     (let evs = (if seen \<noteq> 0 then [Call (SSL_set_read_ahead 0)] else [])
                  @ [Call (SSL_shutdown (ret st))]
      in if ret st > 0 then (Loop_done st, seen, evs)
         else if ret st = 0 then
           (if zeros + 1 > 1 then (Loop_done st, seen, evs)
            else (case shutdown_loop B sock (zeros + 1) 1 rest of
                    (x, seen', evs') \<Rightarrow> (x, seen', evs @ evs')))
         else if err st = SSL_ERROR_WANT_READ \<or> err st = SSL_ERROR_WANT_WRITE then
           (let sockstate =
                  check_socket_and_wait_for_timeout B sock (err st = SSL_ERROR_WANT_WRITE)
                    (poll_rc st)
            in if sockstate = SOCKET_HAS_TIMED_OUT then
                 (Goto_error, seen,
                  evs @ [Call SSL_get_error,
                         Report (TimeoutError (if err st = SSL_ERROR_WANT_READ
                                               then ''The read operation timed out''
                                               else ''The write operation timed out''))])
               else if sockstate = SOCKET_TOO_LARGE_FOR_SELECT then
                 (Goto_error, seen,
                  evs @ [Call SSL_get_error,
                         Report (SSLErrorString ''Underlying socket too large for select().'')])
               else if sockstate \<noteq> SOCKET_OPERATION_OK then
                 (Loop_done st, seen, evs @ [Call SSL_get_error])
               else (case shutdown_loop B sock zeros seen rest of
                       (x, seen', evs') \<Rightarrow> (x, seen', evs @ Call SSL_get_error # evs')))
         else (Loop_done st, seen, evs @ [Call SSL_get_error]))"

text \<open>\<^verbatim>\<open>PySSL_SSLshutdown\<close>: a returned value is the socket object.\<close>

definition PySSL_SSLshutdown ::
  "build_config \<Rightarrow> ssl_engine \<Rightarrow> PySSLSocket \<Rightarrow> engine_step list
     \<Rightarrow> PySocketSockObject status \<times> PySSLSocket \<times> event list"
where
  "PySSL_SSLshutdown B E self steps =
     (case Socket self of
        None \<Rightarrow> (Error, self, socket_gone E)
      | Some sock \<Rightarrow>
          if sock_fd sock < 0 then (Error, self, socket_gone E)
          else
            (case shutdown_loop B sock 0 (shutdown_seen_zero self) steps of
               (Script_end, seen, evs) \<Rightarrow>
                 (Pending, self\<lparr>shutdown_seen_zero := seen\<rparr>, set_nbio sock @ evs)
             | (Goto_error, seen, evs) \<Rightarrow>
                 (Error, self\<lparr>shutdown_seen_zero := seen\<rparr>, set_nbio sock @ evs)
             | (Loop_done st, seen, evs) \<Rightarrow>
                 if ret st < 0 then
                   (Error, self\<lparr>shutdown_seen_zero := seen\<rparr>,
                    set_nbio sock @ evs
                      @ PySSL_SetError E (self\<lparr>shutdown_seen_zero := seen\<rparr>) (ret st)
                          (queued st) (err st))
                 else (Returned sock, self\<lparr>shutdown_seen_zero := seen\<rparr>, set_nbio sock @ evs)))"

text \<open>
  Two readings of a shutdown log: the calls of \<^verbatim>\<open>SSL_shutdown\<close> that returned zero, and
  whether every call of \<^verbatim>\<open>SSL_shutdown\<close> in a log comes directly after a call of
  \<^verbatim>\<open>SSL_set_read_ahead\<close> with argument 0 (\<open>prev\<close> says whether the event before was
  such a call).
\<close>

definition zero_rounds :: "event list \<Rightarrow> nat" where
  "zero_rounds evs = length (filter (\<lambda>e. e = Call (SSL_shutdown 0)) evs)"

fun read_ahead_scan :: "bool \<Rightarrow> event list \<Rightarrow> bool" where
  "read_ahead_scan prev [] = True"
| "read_ahead_scan prev (e # evs) =
     ((case e of
         Call c \<Rightarrow> (case c of SSL_shutdown r \<Rightarrow> prev | _ \<Rightarrow> True)
       | Report x \<Rightarrow> True)
      \<and> read_ahead_scan (e = Call (SSL_set_read_ahead 0)) evs)"

definition read_ahead_off :: "event list \<Rightarrow> bool" where
  "read_ahead_off evs = read_ahead_scan False evs"

text \<open>The part of a log after the first call of \<^verbatim>\<open>SSL_shutdown\<close> that returned zero.\<close>

definition after_first_zero :: "event list \<Rightarrow> event list" where
  "after_first_zero evs = drop 1 (dropWhile (\<lambda>e. e \<noteq> Call (SSL_shutdown 0)) evs)"

text \<open>A step after which the read loop goes round again.\<close>

definition read_retried :: "build_config \<Rightarrow> PySocketSockObject \<Rightarrow> engine_step \<Rightarrow> bool" where
  "read_retried B sock st \<longleftrightarrow>
     \<not> signals st \<and>
     (err st = SSL_ERROR_WANT_READ \<or> err st = SSL_ERROR_WANT_WRITE) \<and>
     check_socket_and_wait_for_timeout B sock (err st = SSL_ERROR_WANT_WRITE) (poll_rc st)
       \<noteq> SOCKET_HAS_TIMED_OUT \<and>
     check_socket_and_wait_for_timeout B sock (err st = SSL_ERROR_WANT_WRITE) (poll_rc st)
       \<noteq> SOCKET_IS_NONBLOCKING"

section \<open>Properties\<close>

subsection \<open>The options setter\<close>

lemma word_delta_result:
  fixes ctx new_opts :: "'w::len word"
  shows "(ctx AND NOT (ctx AND NOT new_opts)) OR (NOT ctx AND new_opts) = new_opts"
  by (rule bit_eqI) (auto simp: bit_simps)

lemma word_delta_xor:
  fixes ctx new_opts :: "'w::len word"
  shows "(ctx AND NOT new_opts) OR (NOT ctx AND new_opts) = ctx XOR new_opts"
  by (rule bit_eqI) (auto simp: bit_simps)

lemma word_delta_set_only:
  fixes ctx new_opts :: "'w::len word"
  assumes "ctx AND NOT new_opts = 0"
  shows "ctx OR (NOT ctx AND new_opts) = new_opts"
proof -
  have "ctx OR (NOT ctx AND new_opts) = (ctx AND NOT (ctx AND NOT new_opts)) OR (NOT ctx AND new_opts)"
    using assms by simp
  then show ?thesis by (simp only: word_delta_result)
qed

lemma word_delta_clear_only:
  fixes ctx new_opts :: "'w::len word"
  assumes "NOT ctx AND new_opts = 0"
  shows "ctx AND NOT (ctx AND NOT new_opts) = new_opts"
  using word_delta_result[of ctx new_opts] assms by simp

lemma word_delta_none:
  fixes ctx new_opts :: "'w::len word"
  assumes "ctx AND NOT new_opts = 0" "NOT ctx AND new_opts = 0"
  shows "ctx = new_opts"
  using word_delta_set_only[OF assms(1)] assms(2) by simp

lemma set_options_ok:
  fixes ctx new_opts :: "'w::len word"
  assumes "HAVE_SSL_CTX_CLEAR_OPTIONS B \<or> ctx AND NOT new_opts = 0"
  shows "set_options B ctx new_opts =
        (Inr (), new_opts,
         (if ctx AND NOT new_opts \<noteq> 0 then [Clear_options (ctx AND NOT new_opts)] else []) @
         (if NOT ctx AND new_opts \<noteq> 0 then [Set_options (NOT ctx AND new_opts)] else []))"
proof -
  define c where "c = ctx AND NOT new_opts"
  define s where "s = NOT ctx AND new_opts"
  have guard: "\<not> (c \<noteq> 0 \<and> \<not> HAVE_SSL_CTX_CLEAR_OPTIONS B)"
    using assms by (auto simp: c_def)
  have st1: "(if c \<noteq> 0 then ctx AND NOT c else ctx) = ctx AND NOT c"
    by simp
  have st2: "(if s \<noteq> 0 then (ctx AND NOT c) OR s else ctx AND NOT c) = (ctx AND NOT c) OR s"
    by simp
  have final: "(ctx AND NOT c) OR s = new_opts"
    unfolding c_def s_def by (rule word_delta_result)
  have "set_options B ctx new_opts =
      (Inr (), (if s \<noteq> 0 then (if c \<noteq> 0 then ctx AND NOT c else ctx) OR s
                else (if c \<noteq> 0 then ctx AND NOT c else ctx)),
       (if c \<noteq> 0 then [Clear_options c] else []) @ (if s \<noteq> 0 then [Set_options s] else []))"
    using guard
    by (simp add: set_options_def Let_def SSL_CTX_set_options_def SSL_CTX_clear_options_def
        flip: c_def s_def)
  also have "(if s \<noteq> 0 then (if c \<noteq> 0 then ctx AND NOT c else ctx) OR s
                else (if c \<noteq> 0 then ctx AND NOT c else ctx)) = new_opts"
    using st1 st2 final by presburger
  finally show ?thesis
    by (simp only: c_def s_def)
qed


text \<open>
  C8 (as amended). When the linked engine can clear option bits, or no bit has to be
  cleared, the setter succeeds, leaves the engine's options equal to the requested
  bitmask, and mutates the engine by exactly two masks: one clearing call for the bits
  present only in the old value (if there are any), then one setting call for the bits
  present only in the new value (if there are any); the two masks together are the
  symmetric difference. When bits have to be cleared and the engine cannot, the setter
  fails with a value error and makes no engine call. Setting the options to the value
  they already hold makes no mutating engine call.
\<close>

theorem set_options_delta:
  fixes ctx new_opts :: "'w::len word"
  shows
  "((HAVE_SSL_CTX_CLEAR_OPTIONS B \<or> ctx AND NOT new_opts = 0) \<longrightarrow>
      set_options B ctx new_opts =
        (Inr (), new_opts,
         (if ctx AND NOT new_opts \<noteq> 0 then [Clear_options (ctx AND NOT new_opts)] else []) @
         (if NOT ctx AND new_opts \<noteq> 0 then [Set_options (NOT ctx AND new_opts)] else [])))
   \<and> (\<not> HAVE_SSL_CTX_CLEAR_OPTIONS B \<and> ctx AND NOT new_opts \<noteq> 0 \<longrightarrow>
      set_options B ctx new_opts =
        (Inl (ValueError ''can't clear options before OpenSSL 0.9.8m''), ctx, []))
   \<and> (ctx AND NOT new_opts) OR (NOT ctx AND new_opts) = ctx XOR new_opts
   \<and> set_options B new_opts new_opts = (Inr (), new_opts, [])"
proof (intro conjI impI)
  assume "HAVE_SSL_CTX_CLEAR_OPTIONS B \<or> ctx AND NOT new_opts = 0"
  then show "set_options B ctx new_opts =
        (Inr (), new_opts,
         (if ctx AND NOT new_opts \<noteq> 0 then [Clear_options (ctx AND NOT new_opts)] else []) @
         (if NOT ctx AND new_opts \<noteq> 0 then [Set_options (NOT ctx AND new_opts)] else []))"
    by (rule set_options_ok)
next
  assume "\<not> HAVE_SSL_CTX_CLEAR_OPTIONS B \<and> ctx AND NOT new_opts \<noteq> 0"
  then show "set_options B ctx new_opts =
        (Inl (ValueError ''can't clear options before OpenSSL 0.9.8m''), ctx, [])"
    by (simp add: set_options_def Let_def)
next
  show "(ctx AND NOT new_opts) OR (NOT ctx AND new_opts) = ctx XOR new_opts"
    by (rule word_delta_xor)
next
  show "set_options B new_opts new_opts = (Inr (), new_opts, [])"
    by (simp add: set_options_def Let_def)
qed

theorem set_options_delta_witness:
  "set_options \<lparr>HAVE_POLL = True, FD_SETSIZE = 1024, HAVE_SSL_CTX_CLEAR_OPTIONS = True\<rparr>
      (5 :: 8 word) 6 = (Inr (), 6, [Clear_options 1, Set_options 2])
   \<and> set_options \<lparr>HAVE_POLL = True, FD_SETSIZE = 1024, HAVE_SSL_CTX_CLEAR_OPTIONS = False\<rparr>
      (5 :: 8 word) 6 = (Inl (ValueError ''can't clear options before OpenSSL 0.9.8m''), 5, [])"
  using set_options_delta [of "\<lparr>HAVE_POLL = True, FD_SETSIZE = 1024, HAVE_SSL_CTX_CLEAR_OPTIONS = True\<rparr>" "5 :: 8 word" 6]
        set_options_delta [of "\<lparr>HAVE_POLL = True, FD_SETSIZE = 1024, HAVE_SSL_CTX_CLEAR_OPTIONS = False\<rparr>" "5 :: 8 word" 6]
  by simp


text \<open>
  The claim as first stated, for every context, fails on a build without
  \<^verbatim>\<open>SSL_CTX_clear_options\<close>: with options 1 and requested options 0 the setter raises and
  the bit stays set.
\<close>

theorem set_options_counterexample:
  "set_options \<lparr>HAVE_POLL = True, FD_SETSIZE = 1024, HAVE_SSL_CTX_CLEAR_OPTIONS = False\<rparr>
      (1 :: 8 word) 0 = (Inl (ValueError ''can't clear options before OpenSSL 0.9.8m''), 1, [])"
  by (simp add: set_options_def Let_def)


subsection \<open>The peer-certificate query\<close>

text \<open>
  C9. The peer-certificate query returns \<^verbatim>\<open>None\<close> when no peer certificate is cached;
  when one is cached, binary mode is not requested and the context's verify mode does not
  include peer verification, it returns an empty dictionary and does not decode the
  certificate.
\<close>

theorem PySSL_peercert_none_or_empty:
  "(peer_cert self = None \<longrightarrow>
      PySSL_peercert E to_der decode verification self binary_mode = Some Py_RETURN_NONE)
   \<and> (peer_cert self \<noteq> None \<and> \<not> binary_mode \<and> verification AND SSL_VERIFY_PEER E = 0 \<longrightarrow>
      PySSL_peercert E to_der decode verification self binary_mode = Some Empty_dict)"
  by (auto simp: PySSL_peercert_def)

theorem PySSL_peercert_none_or_empty_witness:
  "PySSL_peercert plain_engine Some Some 0
      \<lparr>Socket = None, ssl = Some 0, peer_cert = None, shutdown_seen_zero = 0\<rparr> False
     = (Some Py_RETURN_NONE :: (nat, nat) peercert_result option)
   \<and> PySSL_peercert plain_engine Some Some 2
      \<lparr>Socket = None, ssl = Some 0, peer_cert = Some 7, shutdown_seen_zero = 0\<rparr> False
     = (Some Empty_dict :: (nat, nat) peercert_result option)"
  using PySSL_peercert_none_or_empty
      [where self = "\<lparr>Socket = None, ssl = Some 0, peer_cert = None, shutdown_seen_zero = 0\<rparr>"
         and E = plain_engine and to_der = Some and decode = Some and verification = 0
         and binary_mode = False]
    PySSL_peercert_none_or_empty
      [where self = "\<lparr>Socket = None, ssl = Some 0, peer_cert = Some 7, shutdown_seen_zero = 0\<rparr>"
         and E = plain_engine and to_der = Some and decode = Some and verification = 2
         and binary_mode = False]
  by (simp add: plain_engine_def)

subsection \<open>The server-name callback\<close>

lemma int_cast_id2:
  assumes "- (2 ^ 31) \<le> n" "n < 2 ^ 31"
  shows "int_cast n = n"
proof -
  have "sint (word_of_int n :: 32 word) = signed_take_bit 31 n"
    by (simp add: sint_sbintrunc')
  then show ?thesis unfolding int_cast_def using assms by (simp add: signed_take_bit_int_eq_self)
qed


text \<open>
  C7 (as amended). When the registered server-name callback is invoked during a
  handshake: a return of \<^verbatim>\<open>None\<close> lets the handshake continue; a return value that the
  interpreter converts to a C long aborts the handshake with that number, cast to
  \<^verbatim>\<open>int\<close>, as the alert code (the number itself when it fits 32 bits); every other return
  value that is not \<^verbatim>\<open>None\<close> also aborts the handshake, with the internal-error alert.
\<close>

theorem servername_callback_result:
  assumes "set_hostname ssl_ctx = Some cb" and "Socket ssl_obj = Some sock"
    and "(case servername of None \<Rightarrow> Some Py_None
          | Some name \<Rightarrow> map_option PyUnicode (idna name)) = Some h"
  shows "(cb h = Some Py_None \<longrightarrow>
            servername_callback E as_long idna ssl_ctx ssl_obj servername
              = (SSL_TLSEXT_ERR_OK, None))
       \<and> (\<forall>r n. cb h = Some r \<and> r \<noteq> Py_None \<and> as_long r = Some n \<longrightarrow>
            servername_callback E as_long idna ssl_ctx ssl_obj servername
              = (SSL_TLSEXT_ERR_ALERT_FATAL, Some (int_cast n)))
       \<and> (\<forall>n. - (2 ^ 31) \<le> n \<and> n < 2 ^ 31 \<longrightarrow> int_cast n = n)
       \<and> (\<forall>r. cb h = Some r \<and> r \<noteq> Py_None \<and> as_long r = None \<longrightarrow>
            servername_callback E as_long idna ssl_ctx ssl_obj servername
              = (SSL_TLSEXT_ERR_ALERT_FATAL, Some (SSL_AD_INTERNAL_ERROR E)))"
proof -
  have call: "servername_callback E as_long idna ssl_ctx ssl_obj servername =
      (case cb h of
         None \<Rightarrow> (SSL_TLSEXT_ERR_ALERT_FATAL, Some (SSL_AD_HANDSHAKE_FAILURE E))
       | Some result \<Rightarrow>
           if result \<noteq> Py_None then
             (case as_long result of
                Some n \<Rightarrow> (SSL_TLSEXT_ERR_ALERT_FATAL, Some (int_cast n))
              | None \<Rightarrow> (SSL_TLSEXT_ERR_ALERT_FATAL, Some (SSL_AD_INTERNAL_ERROR E)))
           else (SSL_TLSEXT_ERR_OK, None))"
    using assms by (auto simp: servername_callback_def split: option.splits)
  show ?thesis
    unfolding call by (auto simp: int_cast_id2)
qed

theorem servername_callback_result_witness:
  "servername_callback plain_engine PyLong_AsLong Some
      \<lparr>set_hostname = Some (constant_callback (Some (PyLong 112)))\<rparr>
      \<lparr>Socket = Some \<lparr>sock_fd = 3, sock_timeout = 5\<rparr>, ssl = Some 0, peer_cert = None,
        shutdown_seen_zero = 0\<rparr> (Some ''example.org'')
     = (SSL_TLSEXT_ERR_ALERT_FATAL, Some 112)"
  using servername_callback_result
    [where ssl_ctx = "\<lparr>set_hostname = Some (constant_callback (Some (PyLong 112)))\<rparr>"
       and cb = "constant_callback (Some (PyLong 112))"
       and ssl_obj = "\<lparr>Socket = Some \<lparr>sock_fd = 3, sock_timeout = 5\<rparr>, ssl = Some 0,
          peer_cert = None, shutdown_seen_zero = 0\<rparr>"
       and sock = "\<lparr>sock_fd = 3, sock_timeout = 5\<rparr>" and servername = "Some ''example.org''"
       and idna = Some and h = "PyUnicode ''example.org''" and E = plain_engine
       and as_long = PyLong_AsLong]
  by (simp add: constant_callback_def LONG_MIN_def LONG_MAX_def)

text \<open>
  The claim as first stated treats a non-numeric return value as success. A callback that
  returns a string aborts the handshake with alert 80 (internal error).
\<close>

theorem servername_callback_counterexample:
  "servername_callback plain_engine PyLong_AsLong Some
      \<lparr>set_hostname = Some (constant_callback (Some (PyUnicode ''ok'')))\<rparr>
      \<lparr>Socket = Some \<lparr>sock_fd = 3, sock_timeout = 5\<rparr>, ssl = Some 0, peer_cert = None,
        shutdown_seen_zero = 0\<rparr> (Some ''example.org'')
     = (SSL_TLSEXT_ERR_ALERT_FATAL, Some 80)"
  by (simp add: servername_callback_def constant_callback_def plain_engine_def)

subsection \<open>The X.509 name decoder\<close>

lemma rdn_groups_concat: "concat (rdn_groups es) = es"
  by (induction es) (auto split: list.splits)

lemma rdn_groups_nonempty: "[] \<notin> set (rdn_groups es)"
  by (induction es) (auto split: list.splits)

lemma rdn_groups_uniform:
  "g \<in> set (rdn_groups es) \<Longrightarrow> e \<in> set g \<Longrightarrow> entry_set e = entry_set (hd g)"
proof (induction es arbitrary: g e)
  case Nil
  then show ?case by simp
next
  case (Cons a es)
  show ?case
  proof (cases "rdn_groups es")
    case Nil
    with Cons.prems show ?thesis by simp
  next
    case (Cons h hs)
    have IH: "\<And>g e. g \<in> set (h # hs) \<Longrightarrow> e \<in> set g \<Longrightarrow> entry_set e = entry_set (hd g)"
      using Cons.IH Cons by simp
    show ?thesis
    proof (cases "entry_set a = entry_set (hd h)")
      case True
      then have gs: "rdn_groups (a # es) = (a # h) # hs"
        using Cons by simp
      from Cons.prems(1) gs have "g = a # h \<or> g \<in> set hs" by simp
      then show ?thesis
      proof
        assume g: "g = a # h"
        with Cons.prems(2) have "e = a \<or> e \<in> set h" by simp
        then show ?thesis
        proof
          assume "e = a" then show ?thesis using g by simp
        next
          assume "e \<in> set h"
          then have "entry_set e = entry_set (hd h)" using IH[of h e] by simp
          then show ?thesis using True g by simp
        qed
      next
        assume "g \<in> set hs"
        then show ?thesis using IH[of g e] Cons.prems(2) by simp
      qed
    next
      case False
      then have gs: "rdn_groups (a # es) = [a] # h # hs"
        using Cons by simp
      from Cons.prems(1) gs have "g = [a] \<or> g \<in> set (h # hs)" by simp
      then show ?thesis
      proof
        assume "g = [a]" then show ?thesis using Cons.prems(2) by simp
      next
        assume "g \<in> set (h # hs)"
        then show ?thesis using IH[of g e] Cons.prems(2) by simp
      qed
    qed
  qed
qed

lemma rdn_groups_boundary:
  "Suc i < length (rdn_groups es) \<Longrightarrow>
     entry_set (last (rdn_groups es ! i)) \<noteq> entry_set (hd (rdn_groups es ! Suc i))"
proof (induction es arbitrary: i)
  case Nil
  then show ?case by simp
next
  case (Cons a es)
  show ?case
  proof (cases "rdn_groups es")
    case Nil
    with Cons.prems show ?thesis by simp
  next
    case gs: (Cons h hs)
    have hne: "h \<noteq> []" using rdn_groups_nonempty[of es] gs by auto
    have lasth: "entry_set (last h) = entry_set (hd h)"
      using rdn_groups_uniform[of h es "last h"] gs hne by simp
    show ?thesis
    proof (cases "entry_set a = entry_set (hd h)")
      case True
      then have eq: "rdn_groups (a # es) = (a # h) # hs" using gs by simp
      show ?thesis
      proof (cases i)
        case 0
        have "Suc 0 < length (rdn_groups es)" using Cons.prems eq gs 0 by simp
        from Cons.IH[OF this] have "entry_set (last h) \<noteq> entry_set (hd (hs ! 0))"
          using gs by simp
        then show ?thesis using eq 0 hne by simp
      next
        case (Suc j)
        have "Suc (Suc j) < length (rdn_groups es)" using Cons.prems eq gs Suc by simp
        from Cons.IH[OF this] show ?thesis using eq gs Suc by simp
      qed
    next
      case False
      then have eq: "rdn_groups (a # es) = [a] # h # hs" using gs by simp
      show ?thesis
      proof (cases i)
        case 0
        then show ?thesis using eq False by simp
      next
        case (Suc j)
        have "Suc j < length (rdn_groups es)" using Cons.prems eq gs Suc by simp
        from Cons.IH[OF this] show ?thesis using eq gs Suc by simp
      qed
    qed
  qed
qed

lemma create_attr_decodable:
  "decodable obj2txt to_utf8 e \<Longrightarrow>
   create_tuple_for_attribute obj2txt to_utf8 (entry_object e) (entry_data e)
     = Some (attribute_of obj2txt to_utf8 e)"
  by (auto simp: decodable_def create_tuple_for_attribute_def attribute_of_def)

lemma create_attr_undecodable:
  "\<not> decodable obj2txt to_utf8 e \<Longrightarrow>
   create_tuple_for_attribute obj2txt to_utf8 (entry_object e) (entry_data e) = None"
  by (auto simp: decodable_def create_tuple_for_attribute_def split: option.splits)

lemma X509_NAME_loop_open:
  assumes "\<forall>e\<in>set es. decodable obj2txt to_utf8 e \<and> 0 \<le> entry_set e"
    and "0 \<le> lvl" and "rdn \<noteq> []"
  shows "X509_NAME_loop obj2txt to_utf8 es lvl rdn dn =
     Some (dn @ (case rdn_groups es of
                   [] \<Rightarrow> [rdn]
                 | h # hs \<Rightarrow>
                     if entry_set (hd h) = lvl
                     then (rdn @ map (attribute_of obj2txt to_utf8) h)
                            # map (map (attribute_of obj2txt to_utf8)) hs
                     else rdn # map (map (attribute_of obj2txt to_utf8)) (h # hs)))"
  using assms
proof (induction es arbitrary: lvl rdn dn)
  case Nil
  then show ?case by simp
next
  case (Cons a es)
  have dec: "decodable obj2txt to_utf8 a" and nn: "0 \<le> entry_set a"
    and rest: "\<forall>e\<in>set es. decodable obj2txt to_utf8 e \<and> 0 \<le> entry_set e"
    using Cons.prems(1) by auto
  note attr = create_attr_decodable[OF dec]
  show ?case
  proof (cases "lvl = entry_set a")
    case True
    have step: "X509_NAME_loop obj2txt to_utf8 (a # es) lvl rdn dn =
        X509_NAME_loop obj2txt to_utf8 es lvl (rdn @ [attribute_of obj2txt to_utf8 a]) dn"
      using True attr by simp
    have IH: "X509_NAME_loop obj2txt to_utf8 es lvl (rdn @ [attribute_of obj2txt to_utf8 a]) dn = 
       Some (dn @ (case rdn_groups es of
                   [] \<Rightarrow> [rdn @ [attribute_of obj2txt to_utf8 a]]
                 | h # hs \<Rightarrow>
                     if entry_set (hd h) = lvl
                     then ((rdn @ [attribute_of obj2txt to_utf8 a]) @ map (attribute_of obj2txt to_utf8) h)
                            # map (map (attribute_of obj2txt to_utf8)) hs
                     else (rdn @ [attribute_of obj2txt to_utf8 a]) # map (map (attribute_of obj2txt to_utf8)) (h # hs)))"
      by (rule Cons.IH[OF rest Cons.prems(2)]) simp
    show ?thesis
      unfolding step IH using True
      by (cases "rdn_groups es") auto
  next
    case False
    have step: "X509_NAME_loop obj2txt to_utf8 (a # es) lvl rdn dn =
        X509_NAME_loop obj2txt to_utf8 es (entry_set a) [attribute_of obj2txt to_utf8 a] (dn @ [rdn])"
      using False attr Cons.prems(2) by simp
    have IH: "X509_NAME_loop obj2txt to_utf8 es (entry_set a) [attribute_of obj2txt to_utf8 a] (dn @ [rdn]) = 
       Some ((dn @ [rdn]) @ (case rdn_groups es of
                   [] \<Rightarrow> [[attribute_of obj2txt to_utf8 a]]
                 | h # hs \<Rightarrow>
                     if entry_set (hd h) = entry_set a
                     then ([attribute_of obj2txt to_utf8 a] @ map (attribute_of obj2txt to_utf8) h)
                            # map (map (attribute_of obj2txt to_utf8)) hs
                     else [attribute_of obj2txt to_utf8 a] # map (map (attribute_of obj2txt to_utf8)) (h # hs)))"
      by (rule Cons.IH[OF rest nn]) simp
    show ?thesis
      unfolding step IH using False
      by (cases "rdn_groups es") auto
  qed
qed

lemma X509_NAME_groups:
  assumes "\<forall>e\<in>set xname. decodable obj2txt to_utf8 e \<and> 0 \<le> entry_set e"
  shows "create_tuple_for_X509_NAME obj2txt to_utf8 xname =
           Some (map (map (attribute_of obj2txt to_utf8)) (rdn_groups xname))"
proof (cases xname)
  case Nil
  then show ?thesis by (simp add: create_tuple_for_X509_NAME_def)
next
  case (Cons a es)
  have dec: "decodable obj2txt to_utf8 a" and nn: "0 \<le> entry_set a"
    and rest: "\<forall>e\<in>set es. decodable obj2txt to_utf8 e \<and> 0 \<le> entry_set e"
    using assms Cons by auto
  have "create_tuple_for_X509_NAME obj2txt to_utf8 xname =
      X509_NAME_loop obj2txt to_utf8 es (entry_set a) [attribute_of obj2txt to_utf8 a] []"
    using Cons create_attr_decodable[OF dec] by (simp add: create_tuple_for_X509_NAME_def)
  also have "\<dots> = Some ([] @ (case rdn_groups es of
                   [] \<Rightarrow> [[attribute_of obj2txt to_utf8 a]]
                 | h # hs \<Rightarrow>
                     if entry_set (hd h) = entry_set a
                     then ([attribute_of obj2txt to_utf8 a] @ map (attribute_of obj2txt to_utf8) h)
                            # map (map (attribute_of obj2txt to_utf8)) hs
                     else [attribute_of obj2txt to_utf8 a] # map (map (attribute_of obj2txt to_utf8)) (h # hs)))"
    by (rule X509_NAME_loop_open[OF rest nn]) simp
  also have "\<dots> = Some (map (map (attribute_of obj2txt to_utf8)) (rdn_groups xname))"
    using Cons by (cases "rdn_groups es") auto
  finally show ?thesis .
qed

lemma X509_NAME_loop_fails:
  assumes "\<exists>e\<in>set es. \<not> decodable obj2txt to_utf8 e"
  shows "X509_NAME_loop obj2txt to_utf8 es lvl rdn dn = None"
  using assms
proof (induction es arbitrary: lvl rdn dn)
  case Nil
  then show ?case by simp
next
  case (Cons a es)
  show ?case
  proof (cases "decodable obj2txt to_utf8 a")
    case True
    then have "\<exists>e\<in>set es. \<not> decodable obj2txt to_utf8 e" using Cons.prems by auto
    from Cons.IH[OF this] show ?thesis
      using create_attr_decodable[OF True] by (simp add: Let_def split: prod.splits)
  next
    case False
    then show ?thesis
      using create_attr_undecodable[OF False] by (simp add: Let_def split: prod.splits)
  qed
qed

text \<open>
  C5. For every X.509 name whose entries decode and carry set identifiers that are not
  negative (the engine numbers the sets from 0, and the loop keeps -1 for "no entry
  yet"), the decoder returns the groups of \<open>rdn_groups\<close>, each entry converted, in the
  original order: the groups concatenate to the entry list, no group is empty, all
  entries of a group share one set identifier, and neighbouring groups have different
  set identifiers, so that each group is a maximal run.
\<close>

theorem X509_NAME_rdn_grouping:
  assumes "\<forall>e\<in>set xname. decodable obj2txt to_utf8 e \<and> 0 \<le> entry_set e"
  shows "create_tuple_for_X509_NAME obj2txt to_utf8 xname =
           Some (map (map (attribute_of obj2txt to_utf8)) (rdn_groups xname))
       \<and> concat (rdn_groups xname) = xname
       \<and> (\<forall>g\<in>set (rdn_groups xname). g \<noteq> [] \<and> (\<forall>e\<in>set g. entry_set e = entry_set (hd g)))
       \<and> (\<forall>i. Suc i < length (rdn_groups xname) \<longrightarrow>
            entry_set (last (rdn_groups xname ! i)) \<noteq> entry_set (hd (rdn_groups xname ! Suc i)))"
proof (intro conjI)
  show "create_tuple_for_X509_NAME obj2txt to_utf8 xname =
           Some (map (map (attribute_of obj2txt to_utf8)) (rdn_groups xname))"
    using assms by (rule X509_NAME_groups)
  show "concat (rdn_groups xname) = xname"
    by (rule rdn_groups_concat)
  show "\<forall>g\<in>set (rdn_groups xname). g \<noteq> [] \<and> (\<forall>e\<in>set g. entry_set e = entry_set (hd g))"
    using rdn_groups_nonempty[of xname] rdn_groups_uniform[of _ xname] by metis
  show "\<forall>i. Suc i < length (rdn_groups xname) \<longrightarrow>
            entry_set (last (rdn_groups xname ! i)) \<noteq> entry_set (hd (rdn_groups xname ! Suc i))"
    using rdn_groups_boundary[of _ xname] by blast
qed

theorem X509_NAME_rdn_grouping_witness:
  "create_tuple_for_X509_NAME Some Some
        [\<lparr>entry_set = 0, entry_object = ''C'', entry_data = ''US''\<rparr>,
         \<lparr>entry_set = 1, entry_object = ''O'', entry_data = ''Org''\<rparr>,
         \<lparr>entry_set = 1, entry_object = ''OU'', entry_data = ''Unit''\<rparr>,
         \<lparr>entry_set = 2, entry_object = ''CN'', entry_data = ''host''\<rparr>]
      = Some [[(''C'', ''US'')], [(''O'', ''Org''), (''OU'', ''Unit'')], [(''CN'', ''host'')]]"
proof -
  have h: "\<forall>e\<in>set [\<lparr>entry_set = 0, entry_object = ''C'', entry_data = ''US''\<rparr>,
              \<lparr>entry_set = 1, entry_object = ''O'', entry_data = ''Org''\<rparr>,
              \<lparr>entry_set = 1, entry_object = ''OU'', entry_data = ''Unit''\<rparr>,
              \<lparr>entry_set = 2, entry_object = ''CN'', entry_data = ''host''\<rparr>].
       decodable Some Some e \<and> 0 \<le> entry_set e"
    by (simp add: decodable_def)
  show ?thesis
    using X509_NAME_rdn_grouping [OF h] by (simp add: attribute_of_def)
qed

subsection \<open>The error mapper\<close>

lemma PySSL_SetError_zero_reports:
  "\<exists>x. Report (SSLException x) \<in> set (PySSL_SetError E obj 0 e code)"
  by (cases code; cases "ssl obj") (auto simp: PySSL_SetError_def fill_and_set_sslerror_def Let_def)

text \<open>
  C6. When the engine reports the syscall error class and no error code is queued: if
  the operation returned 0 or the socket reference is gone, the error raised is the EOF
  error (class \<open>PY_SSL_ERROR_EOF\<close>); otherwise, if the operation returned -1, the engine's
  error queue is cleared and the only error reported is the one of the socket's own error
  handler: no SSL error is built. (The two cases are read in the order of the code: with
  the socket gone the first one applies whatever the return value.)
\<close>

theorem PySSL_SetError_syscall:
  assumes "ssl obj \<noteq> None"
  shows "(rv = 0 \<or> Socket obj = None \<longrightarrow>
            PySSL_SetError E obj rv 0 SSL_ERROR_SYSCALL =
              [Call ERR_peek_last_error, Call SSL_get_error,
               Report (SSLException \<lparr>exc_type = PySSLEOFErrorObject,
                          exc_errno = py_ssl_error_value PY_SSL_ERROR_EOF,
                          exc_message = ''EOF occurred in violation of protocol'',
                          exc_reason = None, exc_library = None\<rparr>),
               Call ERR_clear_error])
       \<and> (rv = -1 \<and> Socket obj \<noteq> None \<longrightarrow>
            PySSL_SetError E obj rv 0 SSL_ERROR_SYSCALL =
              [Call ERR_peek_last_error, Call SSL_get_error, Call ERR_clear_error,
               Report SocketError])"
  using assms
  by (auto simp: PySSL_SetError_def fill_and_set_sslerror_def Let_def)

theorem PySSL_SetError_syscall_witness:
  "PySSL_SetError plain_engine
      \<lparr>Socket = Some \<lparr>sock_fd = 3, sock_timeout = 5\<rparr>, ssl = Some 0, peer_cert = None,
        shutdown_seen_zero = 0\<rparr> 0 0 SSL_ERROR_SYSCALL =
     [Call ERR_peek_last_error, Call SSL_get_error,
      Report (SSLException \<lparr>exc_type = PySSLEOFErrorObject, exc_errno = 8,
                 exc_message = ''EOF occurred in violation of protocol'',
                 exc_reason = None, exc_library = None\<rparr>),
      Call ERR_clear_error]
   \<and> PySSL_SetError plain_engine
      \<lparr>Socket = Some \<lparr>sock_fd = 3, sock_timeout = 5\<rparr>, ssl = Some 0, peer_cert = None,
        shutdown_seen_zero = 0\<rparr> (-1) 0 SSL_ERROR_SYSCALL =
     [Call ERR_peek_last_error, Call SSL_get_error, Call ERR_clear_error, Report SocketError]"
proof -
  have h: "ssl \<lparr>Socket = Some \<lparr>sock_fd = 3, sock_timeout = 5\<rparr>, ssl = Some 0, peer_cert = None,
        shutdown_seen_zero = 0\<rparr> \<noteq> None"
    by simp
  show ?thesis
    using PySSL_SetError_syscall [OF h, where rv = 0 and E = plain_engine]
      PySSL_SetError_syscall [OF h, where rv = "-1" and E = plain_engine]
    by simp
qed

subsection \<open>A channel whose socket is gone\<close>

lemma socket_gone_events:
  "socket_gone E =
     [Report (SSLException \<lparr>exc_type = PySSLErrorObject, exc_errno = 0,
                exc_message = ''Underlying socket connection gone'',
                exc_reason = None, exc_library = None\<rparr>),
      Call ERR_clear_error]"
  by (simp add: socket_gone_def setSSLError_def fill_and_set_sslerror_def)

text \<open>
  C3, as the code behaves. With the weak reference dead, handshake, read, write and
  shutdown each fail at once, make no call into the TLS session (the only engine call
  clears the error queue), and raise an SSL error with the message "Underlying socket
  connection gone". The numeric code of this error is 0, not the value 9 of
  \<open>PY_SSL_ERROR_NO_SOCKET\<close> that the four callers pass: \<^verbatim>\<open>_setSSLError\<close> overwrites its
  \<open>errcode\<close> argument before using it.
\<close>

theorem socket_gone_error_code:
  "PySSL_SSLdo_handshake B E (self\<lparr>Socket := None\<rparr>) steps
     = (Error, self\<lparr>Socket := None\<rparr>,
        [Report (SSLException \<lparr>exc_type = PySSLErrorObject, exc_errno = 0,
                   exc_message = ''Underlying socket connection gone'',
                   exc_reason = None, exc_library = None\<rparr>),
         Call ERR_clear_error])
   \<and> PySSL_SSLread B E (self\<lparr>Socket := None\<rparr>) len buf alloc_ok pending pre_rc steps
     = (Error,
        [Report (SSLException \<lparr>exc_type = PySSLErrorObject, exc_errno = 0,
                   exc_message = ''Underlying socket connection gone'',
                   exc_reason = None, exc_library = None\<rparr>),
         Call ERR_clear_error])
   \<and> PySSL_SSLwrite B E (self\<lparr>Socket := None\<rparr>) buf_len pre_rc steps
     = (Error,
        [Report (SSLException \<lparr>exc_type = PySSLErrorObject, exc_errno = 0,
                   exc_message = ''Underlying socket connection gone'',
                   exc_reason = None, exc_library = None\<rparr>),
         Call ERR_clear_error])
   \<and> PySSL_SSLshutdown B E (self\<lparr>Socket := None\<rparr>) steps
     = (Error, self\<lparr>Socket := None\<rparr>,
        [Report (SSLException \<lparr>exc_type = PySSLErrorObject, exc_errno = 0,
                   exc_message = ''Underlying socket connection gone'',
                   exc_reason = None, exc_library = None\<rparr>),
         Call ERR_clear_error])
   \<and> filter is_SSL_call
        [Report (SSLException \<lparr>exc_type = PySSLErrorObject, exc_errno = 0,
                   exc_message = ''Underlying socket connection gone'',
                   exc_reason = None, exc_library = None\<rparr>),
         Call ERR_clear_error] = []
   \<and> py_ssl_error_value PY_SSL_ERROR_NO_SOCKET = 9"
  by (simp add: PySSL_SSLdo_handshake_def PySSL_SSLread_def PySSL_SSLwrite_def
      PySSL_SSLshutdown_def socket_gone_events)

theorem socket_gone_error_code_witness:
  "PySSL_SSLdo_handshake poll_build plain_engine
      \<lparr>Socket = None, ssl = Some 0, peer_cert = None, shutdown_seen_zero = 0\<rparr> []
     = (Error, \<lparr>Socket = None, ssl = Some 0, peer_cert = None, shutdown_seen_zero = 0\<rparr>,
        [Report (SSLException \<lparr>exc_type = PySSLErrorObject, exc_errno = 0,
                   exc_message = ''Underlying socket connection gone'',
                   exc_reason = None, exc_library = None\<rparr>),
         Call ERR_clear_error])"
  using socket_gone_error_code
    [of poll_build plain_engine "\<lparr>Socket = None, ssl = Some 0, peer_cert = None, shutdown_seen_zero = 0\<rparr>" "[]"]
  by simp

subsection \<open>Handshake\<close>

lemma handshake_loop_retried:
  assumes "retried B sock st"
  shows "fst (handshake_loop B sock (st # rest)) = fst (handshake_loop B sock rest)"
  using assms by (auto simp: retried_def Let_def split: prod.splits)

lemma handshake_loop_prefix:
  assumes "\<forall>r\<in>set pre. retried B sock r"
  shows "fst (handshake_loop B sock (pre @ rest)) = fst (handshake_loop B sock rest)"
  using assms
proof (induction pre)
  case Nil
  then show ?case by simp
next
  case (Cons a pre)
  then show ?case using handshake_loop_retried[of B sock a "pre @ rest"] by simp
qed

lemma handshake_loop_head:
  "fst (handshake_loop B sock (a # rest)) = Loop_done st \<Longrightarrow>
     (a = st \<and> \<not> signals st) \<or>
     (retried B sock a \<and> fst (handshake_loop B sock rest) = Loop_done st)"
  by (auto simp: retried_def Let_def check_socket_and_wait_for_timeout_def
      split: prod.splits if_splits)

lemma handshake_loop_done:
  assumes "fst (handshake_loop B sock steps) = Loop_done st"
  shows "\<exists>pre post. steps = pre @ st # post \<and> (\<forall>r\<in>set pre. retried B sock r) \<and> \<not> signals st"
  using assms
proof (induction steps)
  case Nil
  then show ?case by simp
next
  case (Cons a steps)
  from handshake_loop_head[OF Cons.prems]
  show ?case
  proof
    assume "a = st \<and> \<not> signals st"
    then have "a # steps = [] @ st # steps \<and> (\<forall>r\<in>set []. retried B sock r) \<and> \<not> signals st"
      by simp
    then show ?thesis by blast
  next
    assume h: "retried B sock a \<and> fst (handshake_loop B sock steps) = Loop_done st"
    then obtain pre post where
      "steps = pre @ st # post" "\<forall>r\<in>set pre. retried B sock r" "\<not> signals st"
      using Cons.IH by blast
    then have "a # steps = (a # pre) @ st # post \<and> (\<forall>r\<in>set (a # pre). retried B sock r)
        \<and> \<not> signals st"
      using h by simp
    then show ?thesis by blast
  qed
qed

lemma handshake_loop_final:
  assumes "\<not> signals st" "err st \<noteq> SSL_ERROR_WANT_READ" "err st \<noteq> SSL_ERROR_WANT_WRITE"
  shows "fst (handshake_loop B sock (st # post)) = Loop_done st"
  using assms by (simp add: Let_def)

lemma handshake_status:
  assumes "Socket self = Some sock"
  shows "fst (PySSL_SSLdo_handshake B E self steps) =
     (case fst (handshake_loop B sock steps) of
        Script_end \<Rightarrow> Pending
      | Goto_error \<Rightarrow> Error
      | Loop_done st \<Rightarrow> if ret st < 1 then Error else Returned ())"
  using assms
  by (simp add: PySSL_SSLdo_handshake_def split: prod.splits loop_exit.splits)

lemma handshake_channel:
  assumes "Socket self = Some sock" "fst (handshake_loop B sock steps) = Loop_done st" "1 \<le> ret st"
  shows "fst (snd (PySSL_SSLdo_handshake B E self steps)) = self\<lparr>peer_cert := peer st\<rparr>"
  using assms
  by (auto simp: PySSL_SSLdo_handshake_def split: prod.splits loop_exit.splits)

lemma handshake_zero:
  assumes "Socket self = Some sock" "fst (handshake_loop B sock steps) = Loop_done st" "ret st = 0"
  shows "\<exists>x. Report (SSLException x) \<in> set (snd (snd (PySSL_SSLdo_handshake B E self steps)))"
proof -
  obtain evs where l: "handshake_loop B sock steps = (Loop_done st, evs)"
    using assms(2) by (cases "handshake_loop B sock steps") auto
  have "snd (snd (PySSL_SSLdo_handshake B E self steps)) =
      set_nbio sock @ evs @ PySSL_SetError E self 0 (queued st) (err st)"
    using assms l by (simp add: PySSL_SSLdo_handshake_def)
  then show ?thesis using PySSL_SetError_zero_reports[of E self "queued st" "err st"] by auto
qed

text \<open>
  C1 (as amended). For a handshake call on a live socket, with an engine whose error
  report is \<open>SSL_ERROR_NONE\<close> exactly when its result is at least 1: the call returns
  successfully if and only if, after zero or more retried steps, it reaches a step at
  which no interrupt is pending, the engine reports no further error and the result is at
  least 1; the channel then caches the peer certificate the engine returns. When the loop
  ends at a step whose result is exactly 0, the call fails and the error mapper reports an
  SSL error.
\<close>

theorem handshake_success_iff:
  assumes "Socket self = Some sock" and "\<forall>st\<in>set steps. engine_consistent st"
  shows "(fst (PySSL_SSLdo_handshake B E self steps) = Returned () \<longleftrightarrow>
           (\<exists>pre st post. steps = pre @ st # post \<and> (\<forall>r\<in>set pre. retried B sock r) \<and>
              \<not> signals st \<and> err st = SSL_ERROR_NONE \<and> 1 \<le> ret st))
       \<and> (\<forall>pre st post. steps = pre @ st # post \<and> (\<forall>r\<in>set pre. retried B sock r) \<and>
              \<not> signals st \<and> err st = SSL_ERROR_NONE \<and> 1 \<le> ret st \<longrightarrow>
            fst (snd (PySSL_SSLdo_handshake B E self steps)) = self\<lparr>peer_cert := peer st\<rparr>)
       \<and> (\<forall>st. fst (handshake_loop B sock steps) = Loop_done st \<and> ret st = 0 \<longrightarrow>
            fst (PySSL_SSLdo_handshake B E self steps) = Error \<and>
            (\<exists>x. Report (SSLException x) \<in> set (snd (snd (PySSL_SSLdo_handshake B E self steps)))))"
proof (intro conjI allI impI)
  show "fst (PySSL_SSLdo_handshake B E self steps) = Returned () \<longleftrightarrow>
           (\<exists>pre st post. steps = pre @ st # post \<and> (\<forall>r\<in>set pre. retried B sock r) \<and>
              \<not> signals st \<and> err st = SSL_ERROR_NONE \<and> 1 \<le> ret st)"
  proof
    assume ok: "fst (PySSL_SSLdo_handshake B E self steps) = Returned ()"
    then obtain st where st: "fst (handshake_loop B sock steps) = Loop_done st" "1 \<le> ret st"
      unfolding handshake_status[OF assms(1)]
      by (auto split: loop_exit.splits if_splits)
    from handshake_loop_done[OF st(1)] obtain pre post where
      d: "steps = pre @ st # post" "\<forall>r\<in>set pre. retried B sock r" "\<not> signals st"
      by blast
    have "st \<in> set steps" using d(1) by simp
    then have "err st = SSL_ERROR_NONE"
      using assms(2) st(2) by (auto simp: engine_consistent_def)
    with d st(2) show "\<exists>pre st post. steps = pre @ st # post \<and> (\<forall>r\<in>set pre. retried B sock r) \<and>
              \<not> signals st \<and> err st = SSL_ERROR_NONE \<and> 1 \<le> ret st"
      by blast
  next
    assume "\<exists>pre st post. steps = pre @ st # post \<and> (\<forall>r\<in>set pre. retried B sock r) \<and>
              \<not> signals st \<and> err st = SSL_ERROR_NONE \<and> 1 \<le> ret st"
    then obtain pre st post where
      d: "steps = pre @ st # post" "\<forall>r\<in>set pre. retried B sock r" "\<not> signals st"
        "err st = SSL_ERROR_NONE" "1 \<le> ret st"
      by blast
    have "fst (handshake_loop B sock steps) = Loop_done st"
      using handshake_loop_prefix[OF d(2), of "st # post"] handshake_loop_final[of st B sock post] d
      by simp
    then show "fst (PySSL_SSLdo_handshake B E self steps) = Returned ()"
      unfolding handshake_status[OF assms(1)] using d(5) by simp
  qed
next
  fix pre st post
  assume "steps = pre @ st # post \<and> (\<forall>r\<in>set pre. retried B sock r) \<and>
              \<not> signals st \<and> err st = SSL_ERROR_NONE \<and> 1 \<le> ret st"
  then have d: "steps = pre @ st # post" "\<forall>r\<in>set pre. retried B sock r" "\<not> signals st"
        "err st = SSL_ERROR_NONE" "1 \<le> ret st"
    by auto
  have "fst (handshake_loop B sock steps) = Loop_done st"
    using handshake_loop_prefix[OF d(2), of "st # post"] handshake_loop_final[of st B sock post] d
    by simp
  then show "fst (snd (PySSL_SSLdo_handshake B E self steps)) = self\<lparr>peer_cert := peer st\<rparr>"
    using handshake_channel[OF assms(1) _ d(5)] by simp
next
  fix st
  assume h: "fst (handshake_loop B sock steps) = Loop_done st \<and> ret st = 0"
  then show "fst (PySSL_SSLdo_handshake B E self steps) = Error"
    unfolding handshake_status[OF assms(1)] by simp
  from h show "\<exists>x. Report (SSLException x) \<in> set (snd (snd (PySSL_SSLdo_handshake B E self steps)))"
    using handshake_zero[OF assms(1)] by blast
qed

theorem handshake_success_iff_witness:
  "fst (PySSL_SSLdo_handshake poll_build plain_engine
     \<lparr>Socket = Some \<lparr>sock_fd = 3, sock_timeout = 5\<rparr>, ssl = Some 0, peer_cert = None,
       shutdown_seen_zero = 0\<rparr>
     [\<lparr>ret = -1, err = SSL_ERROR_WANT_READ, queued = 0, signals = False, poll_rc = 1,
       shutdown_state = 0, peer = None\<rparr>,
      \<lparr>ret = 1, err = SSL_ERROR_NONE, queued = 0, signals = False, poll_rc = 1,
       shutdown_state = 0, peer = Some 7\<rparr>]) = Returned ()
   \<and> fst (snd (PySSL_SSLdo_handshake poll_build plain_engine
     \<lparr>Socket = Some \<lparr>sock_fd = 3, sock_timeout = 5\<rparr>, ssl = Some 0, peer_cert = None,
       shutdown_seen_zero = 0\<rparr>
     [\<lparr>ret = -1, err = SSL_ERROR_WANT_READ, queued = 0, signals = False, poll_rc = 1,
       shutdown_state = 0, peer = None\<rparr>,
      \<lparr>ret = 1, err = SSL_ERROR_NONE, queued = 0, signals = False, poll_rc = 1,
       shutdown_state = 0, peer = Some 7\<rparr>]))
     = \<lparr>Socket = Some \<lparr>sock_fd = 3, sock_timeout = 5\<rparr>, ssl = Some 0, peer_cert = Some 7,
         shutdown_seen_zero = 0\<rparr>"
proof -
  let ?sock = "\<lparr>sock_fd = 3, sock_timeout = 5\<rparr>"
  let ?self = "\<lparr>Socket = Some ?sock, ssl = Some 0, peer_cert = None, shutdown_seen_zero = 0\<rparr>"
  let ?s1 = "\<lparr>ret = -1, err = SSL_ERROR_WANT_READ, queued = 0, signals = False, poll_rc = 1,
       shutdown_state = 0, peer = None\<rparr>"
  let ?s2 = "\<lparr>ret = 1, err = SSL_ERROR_NONE, queued = 0, signals = False, poll_rc = 1,
       shutdown_state = 0, peer = Some 7\<rparr>"
  have h1: "Socket ?self = Some ?sock" by simp
  have h2: "\<forall>st\<in>set [?s1, ?s2]. engine_consistent st"
    by (simp add: engine_consistent_def)
  have d: "[?s1, ?s2] = [?s1] @ ?s2 # [] \<and> (\<forall>r\<in>set [?s1]. retried poll_build ?sock r) \<and>
      \<not> signals ?s2 \<and> err ?s2 = SSL_ERROR_NONE \<and> 1 \<le> ret ?s2"
    by (simp add: retried_def check_socket_and_wait_for_timeout_def poll_build_def)
  from handshake_success_iff [OF h1 h2, of poll_build plain_engine] d
  have "fst (PySSL_SSLdo_handshake poll_build plain_engine ?self [?s1, ?s2]) = Returned ()"
    and "fst (snd (PySSL_SSLdo_handshake poll_build plain_engine ?self [?s1, ?s2]))
          = ?self\<lparr>peer_cert := peer ?s2\<rparr>"
    by blast+
  then show ?thesis by simp
qed

text \<open>
  The claim as first stated has no exception for interrupts. With an interrupt pending,
  a step that reports no further error with result 1 still ends the call with an error,
  and no certificate is cached.
\<close>

theorem handshake_interrupt_counterexample:
  "PySSL_SSLdo_handshake poll_build plain_engine
     \<lparr>Socket = Some \<lparr>sock_fd = 3, sock_timeout = 5\<rparr>, ssl = Some 0, peer_cert = None,
       shutdown_seen_zero = 0\<rparr>
     [\<lparr>ret = 1, err = SSL_ERROR_NONE, queued = 0, signals = True, poll_rc = 1,
       shutdown_state = 0, peer = Some 7\<rparr>]
   = (Error,
      \<lparr>Socket = Some \<lparr>sock_fd = 3, sock_timeout = 5\<rparr>, ssl = Some 0, peer_cert = None,
        shutdown_seen_zero = 0\<rparr>,
      [Call SSL_get_rbio, Call (BIO_set_nbio True), Call SSL_get_wbio, Call (BIO_set_nbio True),
       Call SSL_do_handshake, Call SSL_get_error, Report SignalException])"
  by (simp add: PySSL_SSLdo_handshake_def set_nbio_def Let_def)

subsection \<open>Read\<close>

lemma check_closed:
  assumes "0 < sock_timeout sock" "sock_fd sock < 0"
  shows "check_socket_and_wait_for_timeout B sock writing rc = SOCKET_HAS_BEEN_CLOSED"
  using assms by (simp add: check_socket_and_wait_for_timeout_def)

text \<open>
  C10. For a read call whose destination set-up succeeds, on a socket in timeout mode
  (timeout above 0) with a negative descriptor and no decrypted bytes pending, the read
  returns a result of zero bytes and never calls \<^verbatim>\<open>SSL_read\<close>. Under the same outcome of
  the readiness wait, write fails with "Underlying socket has been closed.", and so does
  handshake once the engine has asked to read or to write.
\<close>

theorem read_on_closed_descriptor:
  assumes "Socket self = Some sock" and "0 < sock_timeout sock" and "sock_fd sock < 0"
    and "read_setup len buf alloc_ok = Inr (buf_passed, len1)"
  shows "PySSL_SSLread B E self len buf alloc_ok 0 pre_rc steps =
           (Returned (if buf_passed then Long_object 0 else Bytes_object 0),
            set_nbio sock @ [Call SSL_pending])
       \<and> (buf_len \<le> INT_MAX \<longrightarrow>
            PySSL_SSLwrite B E self buf_len pre_rc steps =
              (Error,
               set_nbio sock @ [Report (SSLErrorString ''Underlying socket has been closed.'')]))
       \<and> (\<forall>st rest. \<not> signals st \<and> (err st = SSL_ERROR_WANT_READ \<or> err st = SSL_ERROR_WANT_WRITE) \<longrightarrow>
            PySSL_SSLdo_handshake B E self (st # rest) =
              (Error, self,
               set_nbio sock @ [Call SSL_do_handshake, Call SSL_get_error,
                 Report (SSLErrorString ''Underlying socket has been closed.'')]))"
proof (intro conjI allI impI)
  note closed = check_closed[OF assms(2,3)]
  show "PySSL_SSLread B E self len buf alloc_ok 0 pre_rc steps =
           (Returned (if buf_passed then Long_object 0 else Bytes_object 0),
            set_nbio sock @ [Call SSL_pending])"
    using assms(1,4) closed by (simp add: PySSL_SSLread_def Let_def)
  show "PySSL_SSLwrite B E self buf_len pre_rc steps =
              (Error,
               set_nbio sock @ [Report (SSLErrorString ''Underlying socket has been closed.'')])"
    if "buf_len \<le> INT_MAX"
    using assms(1) closed that by (simp add: PySSL_SSLwrite_def Let_def)
  show "PySSL_SSLdo_handshake B E self (st # rest) =
              (Error, self,
               set_nbio sock @ [Call SSL_do_handshake, Call SSL_get_error,
                 Report (SSLErrorString ''Underlying socket has been closed.'')])"
    if "\<not> signals st \<and> (err st = SSL_ERROR_WANT_READ \<or> err st = SSL_ERROR_WANT_WRITE)"
    for st rest
    using assms(1) closed that by (auto simp: PySSL_SSLdo_handshake_def Let_def)
qed

theorem read_on_closed_descriptor_witness:
  "PySSL_SSLread poll_build plain_engine
     \<lparr>Socket = Some \<lparr>sock_fd = -1, sock_timeout = 5\<rparr>, ssl = Some 0, peer_cert = None,
       shutdown_seen_zero = 0\<rparr> 1024 None True 0 1 []
   = (Returned (Bytes_object 0),
      [Call SSL_get_rbio, Call (BIO_set_nbio True), Call SSL_get_wbio, Call (BIO_set_nbio True),
       Call SSL_pending])
   \<and> PySSL_SSLwrite poll_build plain_engine
     \<lparr>Socket = Some \<lparr>sock_fd = -1, sock_timeout = 5\<rparr>, ssl = Some 0, peer_cert = None,
       shutdown_seen_zero = 0\<rparr> 10 1 []
   = (Error,
      [Call SSL_get_rbio, Call (BIO_set_nbio True), Call SSL_get_wbio, Call (BIO_set_nbio True),
       Report (SSLErrorString ''Underlying socket has been closed.'')])"
proof -
  let ?sock = "\<lparr>sock_fd = -1, sock_timeout = 5\<rparr>"
  let ?self = "\<lparr>Socket = Some ?sock, ssl = Some 0, peer_cert = None, shutdown_seen_zero = 0\<rparr>"
  have h1: "Socket ?self = Some ?sock" by simp
  have h2: "0 < sock_timeout ?sock" by simp
  have h3: "sock_fd ?sock < 0" by simp
  have h4: "read_setup 1024 None True = Inr (False, 1024)" by (simp add: read_setup_def)
  from read_on_closed_descriptor [OF h1 h2 h3 h4, of poll_build plain_engine 1 "[]" 10]
  show ?thesis by (simp add: set_nbio_def INT_MAX_def)
qed

lemma read_loop_retried:
  assumes "read_retried B sock st"
  shows "fst (read_loop B E sock (st # rest)) = fst (read_loop B E sock rest)"
  using assms by (auto simp: read_retried_def Let_def split: prod.splits)

lemma read_loop_prefix:
  assumes "\<forall>r\<in>set pre. read_retried B sock r"
  shows "fst (read_loop B E sock (pre @ rest)) = fst (read_loop B E sock rest)"
  using assms
proof (induction pre)
  case Nil
  then show ?case by simp
next
  case (Cons a pre)
  then show ?case using read_loop_retried[where st = a and rest = "pre @ rest"] by simp
qed

lemma read_loop_zero_return:
  assumes "\<not> signals st" "err st = SSL_ERROR_ZERO_RETURN" "shutdown_state st = SSL_RECEIVED_SHUTDOWN E"
  shows "fst (read_loop B E sock (st # post)) = Read_goto_done"
  using assms by (simp add: Let_def)

text \<open>
  C4 (as amended). For a read call that gets as far as the loop and, after zero or more
  retried steps, reaches a step at which no interrupt is pending, the engine classifies
  the result as zero-return and the engine's shutdown state equals "received shutdown",
  the read returns a result of zero bytes and raises no error.
\<close>

theorem read_graceful_eof:
  assumes "Socket self = Some sock"
    and "read_setup len buf alloc_ok = Inr (buf_passed, len1)"
    and "pending \<noteq> 0 \<or>
         (check_socket_and_wait_for_timeout B sock False pre_rc \<noteq> SOCKET_HAS_TIMED_OUT \<and>
          check_socket_and_wait_for_timeout B sock False pre_rc \<noteq> SOCKET_TOO_LARGE_FOR_SELECT)"
    and "steps = pre @ st # post" and "\<forall>r\<in>set pre. read_retried B sock r"
    and "\<not> signals st" and "err st = SSL_ERROR_ZERO_RETURN"
    and "shutdown_state st = SSL_RECEIVED_SHUTDOWN E"
  shows "fst (PySSL_SSLread B E self len buf alloc_ok pending pre_rc steps) =
           Returned (if buf_passed then Long_object 0 else Bytes_object 0)"
proof -
  have "fst (read_loop B E sock steps) = Read_goto_done"
    using read_loop_prefix[OF assms(5), where rest = "st # post"] read_loop_zero_return[OF assms(6,7,8)]
      assms(4) by simp
  then obtain evs where l: "read_loop B E sock steps = (Read_goto_done, evs)"
    by (cases "read_loop B E sock steps") auto
  show ?thesis
    using assms(1,2,3) l by (auto simp: PySSL_SSLread_def Let_def)
qed

theorem read_graceful_eof_witness:
  "fst (PySSL_SSLread poll_build plain_engine
     \<lparr>Socket = Some \<lparr>sock_fd = 3, sock_timeout = 5\<rparr>, ssl = Some 0, peer_cert = None,
       shutdown_seen_zero = 0\<rparr> 1024 None True 0 1
     [\<lparr>ret = -1, err = SSL_ERROR_WANT_READ, queued = 0, signals = False, poll_rc = 1,
       shutdown_state = 0, peer = None\<rparr>,
      \<lparr>ret = 0, err = SSL_ERROR_ZERO_RETURN, queued = 0, signals = False, poll_rc = 1,
       shutdown_state = 2, peer = None\<rparr>]) = Returned (Bytes_object 0)"
proof -
  let ?sock = "\<lparr>sock_fd = 3, sock_timeout = 5\<rparr>"
  let ?self = "\<lparr>Socket = Some ?sock, ssl = Some 0, peer_cert = None, shutdown_seen_zero = 0\<rparr>"
  let ?s1 = "\<lparr>ret = -1, err = SSL_ERROR_WANT_READ, queued = 0, signals = False, poll_rc = 1,
       shutdown_state = 0, peer = None\<rparr>"
  let ?s2 = "\<lparr>ret = 0, err = SSL_ERROR_ZERO_RETURN, queued = 0, signals = False, poll_rc = 1,
       shutdown_state = 2, peer = None\<rparr>"
  have h1: "Socket ?self = Some ?sock" by simp
  have h2: "read_setup 1024 None True = Inr (False, 1024)" by (simp add: read_setup_def)
  have h3: "(0::int) \<noteq> 0 \<or>
         (check_socket_and_wait_for_timeout poll_build ?sock False 1 \<noteq> SOCKET_HAS_TIMED_OUT \<and>
          check_socket_and_wait_for_timeout poll_build ?sock False 1 \<noteq> SOCKET_TOO_LARGE_FOR_SELECT)"
    by (simp add: check_socket_and_wait_for_timeout_def poll_build_def)
  have h4: "[?s1, ?s2] = [?s1] @ ?s2 # []" by simp
  have h5: "\<forall>r\<in>set [?s1]. read_retried poll_build ?sock r"
    by (simp add: read_retried_def check_socket_and_wait_for_timeout_def poll_build_def)
  have h6: "\<not> signals ?s2" by simp
  have h7: "err ?s2 = SSL_ERROR_ZERO_RETURN" by simp
  have h8: "shutdown_state ?s2 = SSL_RECEIVED_SHUTDOWN plain_engine" by (simp add: plain_engine_def)
  from read_graceful_eof [OF h1 h2 h3 h4 h5 h6 h7 h8]
  show ?thesis by simp
qed

text \<open>
  The claim as first stated has no exception for interrupts: the interrupt check comes
  before the zero-return test, so with an interrupt pending the same engine answer ends
  the read with an error.
\<close>

theorem read_interrupt_counterexample:
  "PySSL_SSLread poll_build plain_engine
     \<lparr>Socket = Some \<lparr>sock_fd = 3, sock_timeout = 5\<rparr>, ssl = Some 0, peer_cert = None,
       shutdown_seen_zero = 0\<rparr> 1024 None True 0 1
     [\<lparr>ret = 0, err = SSL_ERROR_ZERO_RETURN, queued = 0, signals = True, poll_rc = 1,
       shutdown_state = 2, peer = None\<rparr>]
   = (Error,
      [Call SSL_get_rbio, Call (BIO_set_nbio True), Call SSL_get_wbio, Call (BIO_set_nbio True),
       Call SSL_pending, Call SSL_read, Call SSL_get_error, Report SignalException])"
  by (simp add: PySSL_SSLread_def read_setup_def set_nbio_def Let_def
      check_socket_and_wait_for_timeout_def poll_build_def)

subsection \<open>Shutdown\<close>

lemma zero_rounds_append: "zero_rounds (a @ b) = zero_rounds a + zero_rounds b"
  by (simp add: zero_rounds_def)

lemma zero_rounds_Cons:
  "zero_rounds (e # evs) = (if e = Call (SSL_shutdown 0) then 1 else 0) + zero_rounds evs"
  by (simp add: zero_rounds_def)

lemma zero_rounds_Nil: "zero_rounds [] = 0"
  by (simp add: zero_rounds_def)

lemma after_first_zero_Cons:
  "after_first_zero (e # evs) = (if e = Call (SSL_shutdown 0) then evs else after_first_zero evs)"
  by (simp add: after_first_zero_def)

lemma after_first_zero_Nil: "after_first_zero [] = []"
  by (simp add: after_first_zero_def)

lemma read_ahead_scan_suffix:
  "read_ahead_scan p evs \<Longrightarrow> read_ahead_scan False (after_first_zero evs)"
proof (induction evs arbitrary: p)
  case Nil
  then show ?case by (simp add: after_first_zero_Nil)
next
  case (Cons e evs)
  show ?case
  proof (cases "e = Call (SSL_shutdown 0)")
    case True
    then show ?thesis using Cons.prems by (simp add: after_first_zero_Cons)
  next
    case False
    have "read_ahead_scan (e = Call (SSL_set_read_ahead 0)) evs"
      using Cons.prems by simp
    from Cons.IH[OF this] show ?thesis using False by (simp add: after_first_zero_Cons)
  qed
qed

text \<open>One iteration of the shutdown loop, by the sign of the engine's result.\<close>

lemma shutdown_loop_pos:
  "ret st > 0 \<Longrightarrow> shutdown_loop B sock zeros seen (st # rest) =
     (Loop_done st, seen,
      (if seen \<noteq> 0 then [Call (SSL_set_read_ahead 0)] else []) @ [Call (SSL_shutdown (ret st))])"
  by (simp add: Let_def)

lemma shutdown_loop_zero_cap:
  "ret st = 0 \<Longrightarrow> zeros \<ge> 1 \<Longrightarrow> shutdown_loop B sock zeros seen (st # rest) =
     (Loop_done st, seen,
      (if seen \<noteq> 0 then [Call (SSL_set_read_ahead 0)] else []) @ [Call (SSL_shutdown 0)])"
  by (simp add: Let_def)

lemma shutdown_loop_zero_again:
  "ret st = 0 \<Longrightarrow> zeros < 1 \<Longrightarrow> shutdown_loop B sock zeros seen (st # rest) =
     (fst (shutdown_loop B sock (zeros + 1) 1 rest),
      fst (snd (shutdown_loop B sock (zeros + 1) 1 rest)),
      ((if seen \<noteq> 0 then [Call (SSL_set_read_ahead 0)] else []) @ [Call (SSL_shutdown 0)])
        @ snd (snd (shutdown_loop B sock (zeros + 1) 1 rest)))"
  by (simp add: Let_def split: prod.splits)

lemma shutdown_loop_neg:
  "ret st < 0 \<Longrightarrow>
     (\<exists>tail. shutdown_loop B sock zeros seen (st # rest) =
        (Goto_error, seen,
         (if seen \<noteq> 0 then [Call (SSL_set_read_ahead 0)] else [])
           @ [Call (SSL_shutdown (ret st)), Call SSL_get_error, Report tail]))
     \<or> shutdown_loop B sock zeros seen (st # rest) =
        (Loop_done st, seen,
         (if seen \<noteq> 0 then [Call (SSL_set_read_ahead 0)] else [])
           @ [Call (SSL_shutdown (ret st)), Call SSL_get_error])
     \<or> shutdown_loop B sock zeros seen (st # rest) =
        (fst (shutdown_loop B sock zeros seen rest),
         fst (snd (shutdown_loop B sock zeros seen rest)),
         ((if seen \<noteq> 0 then [Call (SSL_set_read_ahead 0)] else [])
           @ [Call (SSL_shutdown (ret st)), Call SSL_get_error])
          @ snd (snd (shutdown_loop B sock zeros seen rest)))"
  by (auto simp: Let_def split: prod.splits)

lemma shutdown_loop_cases:
  fixes zeros :: int
  obtains
    (pos) "ret st > 0"
  | (cap) "ret st = 0" "zeros \<ge> 1"
  | (again) "ret st = 0" "zeros < 1"
  | (neg) "ret st < 0"
  by atomize_elim auto

lemma shutdown_loop_guarded:
  assumes "seen \<noteq> 0"
  shows "read_ahead_scan p (snd (snd (shutdown_loop B sock zeros seen steps)))"
  using assms
proof (induction steps arbitrary: zeros seen p)
  case Nil
  then show ?case by simp
next
  case (Cons st rest)
  show ?case
  proof (cases rule: shutdown_loop_cases[where st = st and zeros = zeros])
    case pos
    then show ?thesis using Cons.prems by (simp add: shutdown_loop_pos del: shutdown_loop.simps)
  next
    case cap
    then show ?thesis using Cons.prems by (simp add: shutdown_loop_zero_cap del: shutdown_loop.simps)
  next
    case again
    have "read_ahead_scan False (snd (snd (shutdown_loop B sock (zeros + 1) 1 rest)))"
      by (rule Cons.IH) simp
    then show ?thesis using Cons.prems again by (simp add: shutdown_loop_zero_again del: shutdown_loop.simps)
  next
    case neg
    have ih: "read_ahead_scan False (snd (snd (shutdown_loop B sock zeros seen rest)))"
      by (rule Cons.IH[OF Cons.prems])
    from shutdown_loop_neg[OF neg, of B sock zeros seen rest]
    show ?thesis using Cons.prems ih neg by (elim disjE exE) (simp_all del: shutdown_loop.simps)
  qed
qed

lemma shutdown_loop_after_first_zero:
  "read_ahead_off (after_first_zero (snd (snd (shutdown_loop B sock zeros seen steps))))"
proof (cases "seen = 0")
  case False
  then show ?thesis
    unfolding read_ahead_off_def
    using read_ahead_scan_suffix[OF shutdown_loop_guarded[of seen False B sock zeros steps]]
    by simp
next
  case True
  show ?thesis unfolding True
  proof (induction steps arbitrary: zeros)
    case Nil
    then show ?case by (simp add: read_ahead_off_def after_first_zero_Nil)
  next
    case (Cons st rest)
    show ?case
    proof (cases rule: shutdown_loop_cases[where st = st and zeros = zeros])
      case pos
      then show ?thesis
        by (simp add: shutdown_loop_pos read_ahead_off_def after_first_zero_Cons after_first_zero_Nil
            del: shutdown_loop.simps)
    next
      case cap
      then show ?thesis
        by (simp add: shutdown_loop_zero_cap read_ahead_off_def after_first_zero_Cons
            del: shutdown_loop.simps)
    next
      case again
      have "read_ahead_scan False (snd (snd (shutdown_loop B sock (zeros + 1) 1 rest)))"
        by (rule shutdown_loop_guarded) simp
      then show ?thesis using again
        by (simp add: shutdown_loop_zero_again read_ahead_off_def after_first_zero_Cons
            del: shutdown_loop.simps)
    next
      case neg
      have ih: "read_ahead_off (after_first_zero (snd (snd (shutdown_loop B sock zeros 0 rest))))"
        by (rule Cons.IH)
      from shutdown_loop_neg[OF neg, of B sock zeros 0 rest]
      show ?thesis using ih neg
        by (elim disjE exE)
          (simp_all add: read_ahead_off_def after_first_zero_Cons after_first_zero_Nil
            del: shutdown_loop.simps)
    qed
  qed
qed

lemma shutdown_loop_zero_rounds:
  assumes "0 \<le> zeros"
  shows "zero_rounds (snd (snd (shutdown_loop B sock zeros seen steps))) \<le> (if zeros \<ge> 1 then 1 else 2)
       \<and> (zero_rounds (snd (snd (shutdown_loop B sock zeros seen steps))) = (if zeros \<ge> 1 then 1 else 2)
            \<longrightarrow> (\<exists>st. fst (shutdown_loop B sock zeros seen steps) = Loop_done st \<and> ret st = 0))"
  using assms
proof (induction steps arbitrary: zeros seen)
  case Nil
  then show ?case by (simp add: zero_rounds_Nil)
next
  case (Cons st rest)
  show ?case
  proof (cases rule: shutdown_loop_cases[where st = st and zeros = zeros])
    case pos
    then show ?thesis
      by (simp add: shutdown_loop_pos zero_rounds_append zero_rounds_Cons zero_rounds_Nil
          del: shutdown_loop.simps)
  next
    case cap
    then show ?thesis
      by (simp add: shutdown_loop_zero_cap zero_rounds_append zero_rounds_Cons zero_rounds_Nil
          del: shutdown_loop.simps)
  next
    case again
    have z: "zeros = 0" using again Cons.prems by simp
    have ih: "zero_rounds (snd (snd (shutdown_loop B sock (zeros + 1) 1 rest))) \<le> 1
       \<and> (zero_rounds (snd (snd (shutdown_loop B sock (zeros + 1) 1 rest))) = 1
            \<longrightarrow> (\<exists>st. fst (shutdown_loop B sock (zeros + 1) 1 rest) = Loop_done st \<and> ret st = 0))"
      using Cons.IH[of "zeros + 1" 1] z by simp
    show ?thesis using again ih z
      by (simp add: shutdown_loop_zero_again zero_rounds_append zero_rounds_Cons zero_rounds_Nil
          del: shutdown_loop.simps)
  next
    case neg
    note ih = Cons.IH[OF Cons.prems, of seen]
    from shutdown_loop_neg[OF neg, of B sock zeros seen rest]
    show ?thesis using ih neg
      by (elim disjE exE)
        (auto simp add: zero_rounds_append zero_rounds_Cons zero_rounds_Nil
          simp del: shutdown_loop.simps)
  qed
qed

lemma read_ahead_scan_no_shutdown:
  assumes "\<forall>r. Call (SSL_shutdown r) \<notin> set evs"
  shows "read_ahead_scan p evs"
  using assms
proof (induction evs arbitrary: p)
  case Nil
  then show ?case by simp
next
  case (Cons e evs)
  then show ?case by (auto split: event.splits engine_call.splits)
qed

lemma read_ahead_scan_append:
  assumes "read_ahead_scan p a" and "\<forall>r. Call (SSL_shutdown r) \<notin> set b"
  shows "read_ahead_scan p (a @ b)"
  using assms
proof (induction a arbitrary: p)
  case Nil
  then show ?case by (simp add: read_ahead_scan_no_shutdown)
next
  case (Cons e a)
  then show ?case by simp
qed

lemma after_first_zero_no_shutdown:
  assumes "\<forall>r. Call (SSL_shutdown r) \<notin> set pre"
  shows "after_first_zero (pre @ evs) = after_first_zero evs"
  using assms by (induction pre) (auto simp: after_first_zero_Cons)

lemma read_ahead_off_tail:
  assumes "read_ahead_off (after_first_zero evs)" and "\<forall>r. Call (SSL_shutdown r) \<notin> set tail"
  shows "read_ahead_off (after_first_zero (evs @ tail))"
  using assms
proof (induction evs)
  case Nil
  have "after_first_zero (tail @ []) = after_first_zero []"
    by (rule after_first_zero_no_shutdown[OF Nil(2)])
  then show ?case by (simp add: after_first_zero_Nil read_ahead_off_def)
next
  case (Cons e evs)
  show ?case
  proof (cases "e = Call (SSL_shutdown 0)")
    case True
    then show ?thesis
      using Cons.prems read_ahead_scan_append[of False evs tail]
      by (simp add: after_first_zero_Cons read_ahead_off_def)
  next
    case False
    then show ?thesis using Cons by (simp add: after_first_zero_Cons)
  qed
qed

lemma zero_rounds_no_shutdown:
  assumes "\<forall>r. Call (SSL_shutdown r) \<notin> set evs"
  shows "zero_rounds evs = 0"
  using assms by (auto simp: zero_rounds_def filter_empty_conv)

lemma set_nbio_no_shutdown: "\<forall>r. Call (SSL_shutdown r) \<notin> set (set_nbio sock)"
  by (simp add: set_nbio_def Let_def)

lemma socket_gone_no_shutdown: "\<forall>r. Call (SSL_shutdown r) \<notin> set (socket_gone E)"
  by (simp add: socket_gone_events)

lemma PySSL_SetError_no_shutdown: "\<forall>r. Call (SSL_shutdown r) \<notin> set (PySSL_SetError E obj rv e code)"
  by (cases code; cases "ssl obj") (auto simp: PySSL_SetError_def Let_def)

text \<open>The log of a shutdown call: the loop's log between two parts without shutdown calls.\<close>

lemma shutdown_log:
  "(\<exists>pre tail seen sock.
      snd (snd (PySSL_SSLshutdown B E self steps)) =
         pre @ snd (snd (shutdown_loop B sock 0 seen steps)) @ tail
    \<and> (\<forall>r. Call (SSL_shutdown r) \<notin> set pre) \<and> (\<forall>r. Call (SSL_shutdown r) \<notin> set tail)
    \<and> (zero_rounds (snd (snd (shutdown_loop B sock 0 seen steps))) = 2 \<longrightarrow>
          fst (PySSL_SSLshutdown B E self steps) = Returned sock))
    \<or> snd (snd (PySSL_SSLshutdown B E self steps)) = socket_gone E"
proof (cases "Socket self")
  case None
  then show ?thesis by (simp add: PySSL_SSLshutdown_def)
next
  case (Some sock)
  show ?thesis
  proof (cases "sock_fd sock < 0")
    case True
    then show ?thesis using Some by (simp add: PySSL_SSLshutdown_def)
  next
    case False
    obtain x seen' evs where l: "shutdown_loop B sock 0 (shutdown_seen_zero self) steps = (x, seen', evs)"
      by (cases "shutdown_loop B sock 0 (shutdown_seen_zero self) steps") auto
    have cap: "zero_rounds evs = 2 \<longrightarrow> (\<exists>st. x = Loop_done st \<and> ret st = 0)"
      using shutdown_loop_zero_rounds[of 0 B sock "shutdown_seen_zero self" steps] l by simp
    have "\<exists>tail. snd (snd (PySSL_SSLshutdown B E self steps)) = set_nbio sock @ evs @ tail
        \<and> (\<forall>r. Call (SSL_shutdown r) \<notin> set tail)
        \<and> (zero_rounds evs = 2 \<longrightarrow> fst (PySSL_SSLshutdown B E self steps) = Returned sock)"
    proof (cases x)
      case (Loop_done st)
      show ?thesis
      proof (cases "ret st < 0")
        case True
        then have "snd (snd (PySSL_SSLshutdown B E self steps)) = set_nbio sock @ evs @
            PySSL_SetError E (self\<lparr>shutdown_seen_zero := seen'\<rparr>) (ret st) (queued st) (err st)"
          and "zero_rounds evs \<noteq> 2"
          using Some False l Loop_done cap by (auto simp: PySSL_SSLshutdown_def)
        then show ?thesis using PySSL_SetError_no_shutdown by blast
      next
        case nonneg: False
        then have "snd (snd (PySSL_SSLshutdown B E self steps)) = set_nbio sock @ evs @ []"
          and "fst (PySSL_SSLshutdown B E self steps) = Returned sock"
          using Some False l Loop_done by (auto simp: PySSL_SSLshutdown_def)
        then show ?thesis by auto
      qed
    next
      case Goto_error
      then have "snd (snd (PySSL_SSLshutdown B E self steps)) = set_nbio sock @ evs @ []"
        and "zero_rounds evs \<noteq> 2"
        using Some False l cap by (auto simp: PySSL_SSLshutdown_def)
      then show ?thesis by auto
    next
      case Script_end
      then have "snd (snd (PySSL_SSLshutdown B E self steps)) = set_nbio sock @ evs @ []"
        and "zero_rounds evs \<noteq> 2"
        using Some False l cap by (auto simp: PySSL_SSLshutdown_def)
      then show ?thesis by auto
    qed
    then show ?thesis using l set_nbio_no_shutdown[of sock] by (metis snd_conv)
  qed
qed

text \<open>
  C2. For every shutdown call, whatever the engine answers and however long the script:
  at most two calls of \<^verbatim>\<open>SSL_shutdown\<close> return zero; after the first of them, every later
  call of \<^verbatim>\<open>SSL_shutdown\<close> comes directly after \<^verbatim>\<open>SSL_set_read_ahead(ssl, 0)\<close>; and the
  second zero result ends the call, which returns the socket.
\<close>

theorem shutdown_zero_rounds_bounded:
  "zero_rounds (snd (snd (PySSL_SSLshutdown B E self steps))) \<le> 2
   \<and> read_ahead_off (after_first_zero (snd (snd (PySSL_SSLshutdown B E self steps))))
   \<and> (zero_rounds (snd (snd (PySSL_SSLshutdown B E self steps))) = 2 \<longrightarrow>
        (\<exists>sock. fst (PySSL_SSLshutdown B E self steps) = Returned sock))"
proof -
  from shutdown_log[of B E self steps]
  show ?thesis
  proof
    assume "snd (snd (PySSL_SSLshutdown B E self steps)) = socket_gone E"
    then show ?thesis
      by (simp add: socket_gone_events zero_rounds_Cons zero_rounds_Nil after_first_zero_Cons
          after_first_zero_Nil read_ahead_off_def)
  next
    assume "\<exists>pre tail seen sock.
      snd (snd (PySSL_SSLshutdown B E self steps)) =
         pre @ snd (snd (shutdown_loop B sock 0 seen steps)) @ tail
    \<and> (\<forall>r. Call (SSL_shutdown r) \<notin> set pre) \<and> (\<forall>r. Call (SSL_shutdown r) \<notin> set tail)
    \<and> (zero_rounds (snd (snd (shutdown_loop B sock 0 seen steps))) = 2 \<longrightarrow>
          fst (PySSL_SSLshutdown B E self steps) = Returned sock)"
    then obtain pre tail seen sock where
      log: "snd (snd (PySSL_SSLshutdown B E self steps)) =
         pre @ snd (snd (shutdown_loop B sock 0 seen steps)) @ tail"
      and pre: "\<forall>r. Call (SSL_shutdown r) \<notin> set pre"
      and tail: "\<forall>r. Call (SSL_shutdown r) \<notin> set tail"
      and cap: "zero_rounds (snd (snd (shutdown_loop B sock 0 seen steps))) = 2 \<longrightarrow>
          fst (PySSL_SSLshutdown B E self steps) = Returned sock"
      by blast
    let ?evs = "snd (snd (shutdown_loop B sock 0 seen steps))"
    have z: "zero_rounds (snd (snd (PySSL_SSLshutdown B E self steps))) = zero_rounds ?evs"
      unfolding log
      by (simp add: zero_rounds_append zero_rounds_no_shutdown[OF pre] zero_rounds_no_shutdown[OF tail])
    have le: "zero_rounds ?evs \<le> 2"
      using shutdown_loop_zero_rounds[of 0 B sock seen steps] by simp
    have "read_ahead_off (after_first_zero (?evs @ tail))"
      using read_ahead_off_tail[OF shutdown_loop_after_first_zero tail] .
    then have off: "read_ahead_off (after_first_zero (snd (snd (PySSL_SSLshutdown B E self steps))))"
      unfolding log after_first_zero_no_shutdown[OF pre] .
    show ?thesis using z le off cap by auto
  qed
qed

theorem shutdown_zero_rounds_bounded_witness:
  "zero_rounds (snd (snd (PySSL_SSLshutdown poll_build plain_engine
     \<lparr>Socket = Some \<lparr>sock_fd = 3, sock_timeout = 5\<rparr>, ssl = Some 0, peer_cert = None,
       shutdown_seen_zero = 0\<rparr>
     [\<lparr>ret = 0, err = SSL_ERROR_SYSCALL, queued = 0, signals = False, poll_rc = 1,
       shutdown_state = 0, peer = None\<rparr>,
      \<lparr>ret = -1, err = SSL_ERROR_WANT_READ, queued = 0, signals = False, poll_rc = 1,
       shutdown_state = 0, peer = None\<rparr>,
      \<lparr>ret = 0, err = SSL_ERROR_SYSCALL, queued = 0, signals = False, poll_rc = 1,
       shutdown_state = 0, peer = None\<rparr>,
      \<lparr>ret = 0, err = SSL_ERROR_SYSCALL, queued = 0, signals = False, poll_rc = 1,
       shutdown_state = 0, peer = None\<rparr>]))) = 2
   \<and> (\<exists>sock. fst (PySSL_SSLshutdown poll_build plain_engine
     \<lparr>Socket = Some \<lparr>sock_fd = 3, sock_timeout = 5\<rparr>, ssl = Some 0, peer_cert = None,
       shutdown_seen_zero = 0\<rparr>
     [\<lparr>ret = 0, err = SSL_ERROR_SYSCALL, queued = 0, signals = False, poll_rc = 1,
       shutdown_state = 0, peer = None\<rparr>,
      \<lparr>ret = -1, err = SSL_ERROR_WANT_READ, queued = 0, signals = False, poll_rc = 1,
       shutdown_state = 0, peer = None\<rparr>,
      \<lparr>ret = 0, err = SSL_ERROR_SYSCALL, queued = 0, signals = False, poll_rc = 1,
       shutdown_state = 0, peer = None\<rparr>,
      \<lparr>ret = 0, err = SSL_ERROR_SYSCALL, queued = 0, signals = False, poll_rc = 1,
       shutdown_state = 0, peer = None\<rparr>]) = Returned sock)"
proof -
  let ?self = "\<lparr>Socket = Some \<lparr>sock_fd = 3, sock_timeout = 5\<rparr>, ssl = Some 0, peer_cert = None,
       shutdown_seen_zero = 0\<rparr>"
  let ?z = "\<lparr>ret = 0, err = SSL_ERROR_SYSCALL, queued = 0, signals = False, poll_rc = 1,
       shutdown_state = 0, peer = None\<rparr>"
  let ?w = "\<lparr>ret = -1, err = SSL_ERROR_WANT_READ, queued = 0, signals = False, poll_rc = 1,
       shutdown_state = 0, peer = None\<rparr>"
  have e: "zero_rounds (snd (snd (PySSL_SSLshutdown poll_build plain_engine ?self [?z, ?w, ?z, ?z]))) = 2"
    by (simp add: PySSL_SSLshutdown_def set_nbio_def Let_def zero_rounds_def
        check_socket_and_wait_for_timeout_def poll_build_def)
  from shutdown_zero_rounds_bounded [of poll_build plain_engine ?self "[?z, ?w, ?z, ?z]"] e
  show ?thesis by blast
qed

end
